theory Spec2Isabelle
  imports Complex_Main
begin

section \<open>Phone-number risk scoring: a shallow embedding\<close>

text \<open>
  The Python sources embedded here are \<^verbatim>\<open>app/services/risk_scorer.py\<close>,
  \<^verbatim>\<open>app/services/phone_analyzer.py\<close>, \<^verbatim>\<open>app/services/osint_modules_real.py\<close>,
  \<^verbatim>\<open>app/utils/validators.py\<close> and \<^verbatim>\<open>app/routes/analysis.py\<close>.

  Conventions of the embedding:
  \<^item> a Python dict with a fixed vocabulary of keys is a record whose fields are
    \<open>option\<close>s: \<open>None\<close> is an absent key, so \<^verbatim>\<open>d.get(k, default)\<close> is a case
    distinction on the field;
  \<^item> Python floats are exact rationals (\<open>rat\<close>), counts and ages are \<open>int\<close>;
  \<^item> a raised exception is \<open>Inl msg\<close> with \<open>msg\<close> the text of \<^verbatim>\<open>str(e)\<close>, a normal
    return is \<open>Inr v\<close>;
  \<^item> a leading underscore of a Python name is dropped
    (\<^verbatim>\<open>_calculate_spam_score\<close> is \<open>calculate_spam_score\<close>).
\<close>

subsection \<open>Python primitives\<close>

type_synonym 'a raises = "string + 'a"

text \<open>True division \<^verbatim>\<open>a / b\<close> of two numbers: raises on a zero divisor.\<close>

definition py_truediv :: "rat \<Rightarrow> rat \<Rightarrow> rat raises" where
  "py_truediv a b = (if b = 0 then Inl ''division by zero'' else Inr (a / b))"

text \<open>
  \<^verbatim>\<open>round(x, 2)\<close>: the nearest multiple of 1/100, an exact tie going to the even
  neighbour.
\<close>

definition round_half_even :: "rat \<Rightarrow> int" where
  "round_half_even x =
     (let f = \<lfloor>x\<rfloor>; d = x - of_int f
      in if d < 1 / 2 then f
         else if 1 / 2 < d then f + 1
         else if even f then f else f + 1)"

definition py_round2 :: "rat \<Rightarrow> rat" where
  "py_round2 x = of_int (round_half_even (x * 100)) / 100"

text \<open>Truthiness of an optional boolean, an optional string and an optional list.\<close>

definition truthy_bool :: "bool option \<Rightarrow> bool" where
  "truthy_bool b = (case b of None \<Rightarrow> False | Some v \<Rightarrow> v)"

definition truthy_str :: "string option \<Rightarrow> bool" where
  "truthy_str s = (case s of None \<Rightarrow> False | Some v \<Rightarrow> v \<noteq> [])"

definition truthy_list :: "'a list option \<Rightarrow> bool" where
  "truthy_list l = (case l of None \<Rightarrow> False | Some v \<Rightarrow> v \<noteq> [])"

text \<open>\<^verbatim>\<open>d.get(k, default)\<close> on an optional field.\<close>

definition get_default :: "'a option \<Rightarrow> 'a \<Rightarrow> 'a" where
  "get_default v d = (case v of None \<Rightarrow> d | Some x \<Rightarrow> x)"

text \<open>Decimal rendering of an integer inside an f-string.\<close>

definition digit_char :: "nat \<Rightarrow> char" where
  "digit_char d = char_of (48 + d)"

fun str_nat :: "nat \<Rightarrow> string" where
  "str_nat n = (if n < 10 then [digit_char n] else str_nat (n div 10) @ [digit_char (n mod 10)])"

declare str_nat.simps [simp del]

definition str_int :: "int \<Rightarrow> string" where
  "str_int i = (if i < 0 then CHR ''-'' # str_nat (nat (- i)) else str_nat (nat i))"

subsection \<open>Evidence payloads\<close>

text \<open>One entry of \<^verbatim>\<open>accounts_found\<close> in the social-media payload.\<close>

record account =
  platform :: "string option"
  account_age_days :: "int option"

text \<open>The payload of \<^verbatim>\<open>SocialMediaScanner.scan\<close>.\<close>

record social_data =
  platforms_checked :: "string list option"
  accounts_found :: "account list option"
  anomaly_detected :: "bool option"
  anomaly_description :: "string option"
  social_severity :: "string option"
  social_warning :: "string option"

text \<open>The empty dict \<^verbatim>\<open>{}\<close> read as a social-media payload.\<close>

definition empty_social :: social_data where
  "empty_social = \<lparr>platforms_checked = None, accounts_found = None, anomaly_detected = None,
     anomaly_description = None, social_severity = None, social_warning = None\<rparr>"

text \<open>One entry of \<^verbatim>\<open>details\<close> in the spam payload.\<close>

record spam_detail =
  sd_source :: string
  sd_report_count :: int
  sd_categories :: "string list"
  sd_spam_score :: int
  sd_last_reported :: string

text \<open>The payload of \<^verbatim>\<open>SpamDatabaseChecker.check\<close>.\<close>

record spam_results =
  total_reports :: "int option"
  details :: "spam_detail list option"
  sources :: "string list option"
  categories :: "string list option"

text \<open>One entry of \<^verbatim>\<open>mentions\<close> in the fraud-forum payload.\<close>

record fraud_mention =
  fm_source :: string
  fm_context :: string
  fm_date :: string
  fm_severity :: string
  fm_fraud_score :: int

text \<open>The payload of \<^verbatim>\<open>FraudForumScanner.scan\<close>.\<close>

record fraud_results =
  mentions_count :: "int option"
  mentions :: "fraud_mention list option"
  fr_risk_level :: "string option"
  sources_checked :: "string list option"

text \<open>The payloads of \<^verbatim>\<open>TelegramScanner.scan\<close> and \<^verbatim>\<open>WhatsAppChecker.check\<close>.\<close>

record telegram_results =
  has_telegram_account :: "bool option"
  public_username :: "string option"
  suspicious_groups :: "string list option"
  tg_warning :: "string option"

record whatsapp_results =
  has_whatsapp :: "bool option"
  business_account :: "bool option"
  wa_warning :: "string option"

text \<open>The payload of \<^verbatim>\<open>IPQualityScoreChecker.check_fraud\<close>.\<close>

record ipqs_data =
  ipqs_error :: "string option"
  ipqs_fraud_score :: "int option"
  ipqs_recent_abuse :: "bool option"
  ipqs_VOIP :: "bool option"
  ipqs_prepaid :: "bool option"
  ipqs_risky :: "bool option"
  ipqs_active :: "bool option"
  ipqs_carrier :: "string option"
  ipqs_line_type :: "string option"
  ipqs_country :: "string option"
  ipqs_city :: "string option"
  ipqs_region :: "string option"
  ipqs_spam_score :: "int option"
  ipqs_do_not_call :: "bool option"

text \<open>The payload of \<^verbatim>\<open>NumverifyValidator.validate\<close>.\<close>

record numverify_data =
  nv_error :: "string option"
  nv_valid :: "bool option"
  nv_number :: "string option"
  nv_local_format :: "string option"
  nv_country_code :: "string option"
  nv_country_name :: "string option"
  nv_location :: "string option"
  nv_carrier :: "string option"
  nv_line_type :: "string option"

subsection \<open>Rich metadata and risk factors\<close>

record porting_entry =
  pe_carrier :: string
  pe_status :: string

record carrier_details =
  current_carrier :: string
  original_carrier :: string
  porting_detected :: bool
  cd_line_type :: string
  is_voip :: bool
  is_prepaid :: "bool option"
  porting_history :: "porting_entry list option"

record geographic_data =
  gd_country :: string
  gd_country_name :: string
  gd_city :: "string option"
  gd_region :: string
  gd_location_formatted :: string
  gd_timezone :: string
  gd_all_timezones :: "string list"

record number_status =
  ns_active :: bool
  ns_valid :: bool
  ns_risky :: bool
  ns_do_not_call :: bool

record reputation_indicators =
  ri_fraud_score :: int
  ri_spam_score :: int
  ri_recent_abuse :: bool
  ri_leak_detected :: bool

record rich_metadata =
  rm_carrier_details :: carrier_details
  rm_geographic_data :: geographic_data
  rm_number_status :: number_status
  rm_reputation_indicators :: reputation_indicators
  rm_estimated_age :: "string option"

text \<open>The \<^verbatim>\<open>evidence\<close> entry of a risk factor holds a snapshot of the payload it came from.\<close>

datatype evidence =
    EvVoip bool
  | EvPorting "porting_entry list"
  | EvDoNotCall bool
  | EvSocial social_data
  | EvSpam spam_results
  | EvFraud fraud_results
  | EvTelegram telegram_results

text \<open>A risk-factor dict.\<close>

record factor =
  category :: "string option"
  factor_type :: "string option"
  severity :: "string option"
  weight :: "rat option"
  description :: "string option"
  evidence :: "evidence option"
  source :: "string option"
  score_contribution :: "rat option"

subsection \<open>The working result of one analysis run\<close>

text \<open>The dict \<^verbatim>\<open>PhoneAnalyzer.results\<close>, which is also the input of the scorer.\<close>

record results =
  phone_number :: string
  data_sources_used :: "string list"
  risk_factors :: "factor list"
  country_code :: "string option"
  carrier :: "string option"
  line_type :: "int option"
  location :: "string option"
  timezones :: "string list option"
  rich_metadata :: "rich_metadata option"
  social_media_presence :: "social_data option"
  spam_reports_count :: "int option"
  spam_details :: "spam_detail list option"
  fraud_mentions_count :: "int option"
  fraud_details :: "fraud_mention list option"
  telegram_presence :: "telegram_results option"
  whatsapp_presence :: "whatsapp_results option"
  risk_score :: "rat option"
  risk_level :: "string option"
  basic_info_error :: "string option"
  rich_metadata_error :: "string option"
  social_media_error :: "string option"
  spam_check_error :: "string option"
  fraud_scan_error :: "string option"
  messaging_apps_error :: "string option"

subsection \<open>\<^verbatim>\<open>RiskScorer\<close>\<close>

text \<open>The dict \<^verbatim>\<open>self.weights\<close> set by the constructor.\<close>

record weights_dict =
  social_media_anomalies :: rat
  spam_reports :: rat
  fraud_forum_mentions :: rat
  account_age :: rat
  geographic_anomalies :: rat

definition weights :: weights_dict where
  "weights = \<lparr>social_media_anomalies = 30 / 100, spam_reports = 25 / 100,
     fraud_forum_mentions = 25 / 100, account_age = 10 / 100,
     geographic_anomalies = 10 / 100\<rparr>"

text \<open>\<^verbatim>\<open>self.results.get('social_media_presence', {})\<close>\<close>

definition get_social_data :: "results \<Rightarrow> social_data" where
  "get_social_data r = get_default (social_media_presence r) empty_social"

definition calculate_social_media_score :: "results \<Rightarrow> rat" where
  "calculate_social_media_score r =
     (let social = get_social_data r;
          score =
            (if truthy_bool (anomaly_detected social) then
               (let n_found = length (get_default (accounts_found social) []);
                    recent_accounts =
                      filter (\<lambda>acc. get_default (account_age_days acc) 999 < 30)
                        (get_default (accounts_found social) []);
                    s1 = (if 3 \<le> length recent_accounts then 80
                          else if 2 \<le> length recent_accounts then 60
                          else if length recent_accounts = 1 then 30
                          else 0);
                    s2 = (if n_found = 0 then s1 + 20 else s1);
                    s3 = (if 5 < n_found then s2 + 40 else s2)
                in s3)
             else 0)
      in min 100 score)"

definition calculate_spam_score :: "results \<Rightarrow> rat" where
  "calculate_spam_score r =
     (let spam_count = get_default (spam_reports_count r) 0
      in if spam_count = 0 then 0
         else if spam_count \<le> 3 then 30
         else if spam_count \<le> 10 then 60
         else if spam_count \<le> 20 then 85
         else 100)"

definition calculate_fraud_score :: "results \<Rightarrow> rat" where
  "calculate_fraud_score r =
     (let fraud_count = get_default (fraud_mentions_count r) 0
      in if fraud_count = 0 then 0
         else if fraud_count = 1 then 50
         else if fraud_count \<le> 3 then 80
         else 100)"

definition calculate_account_age_score :: "results \<Rightarrow> rat raises" where
  "calculate_account_age_score r =
     (let social = get_social_data r;
          accounts = get_default (accounts_found social) []
      in if accounts = [] then Inr 30
         else
           (let ages = map (\<lambda>acc. get_default (account_age_days acc) 0) accounts
            in case (if ages \<noteq> []
                     then py_truediv (of_int (sum_list ages)) (of_nat (length ages))
                     else Inr 0) of
                 Inl e \<Rightarrow> Inl e
               | Inr avg_age \<Rightarrow>
                   Inr (if avg_age < 7 then 90
                        else if avg_age < 30 then 70
                        else if avg_age < 90 then 40
                        else if avg_age < 180 then 20
                        else 0)))"

definition calculate_geographic_score :: "results \<Rightarrow> rat" where
  "calculate_geographic_score r =
     (let loc = get_default (location r) ''Unknown''
      in if loc = ''Unknown'' then 20 else 0)"

definition determine_risk_level :: "rat \<Rightarrow> string" where
  "determine_risk_level score =
     (if 70 \<le> score then ''HIGH''
      else if 40 \<le> score then ''MEDIUM''
      else if 20 \<le> score then ''LOW''
      else ''MINIMAL'')"

definition calculate :: "results \<Rightarrow> (rat \<times> string) raises" where
  "calculate r =
     (let social_score = calculate_social_media_score r;
          spam_score = calculate_spam_score r;
          fraud_score = calculate_fraud_score r
      in case calculate_account_age_score r of
           Inl e \<Rightarrow> Inl e
         | Inr age_score \<Rightarrow>
             (let geo_score = calculate_geographic_score r;
                  total_score =
                    social_score * social_media_anomalies weights
                    + spam_score * spam_reports weights
                    + fraud_score * fraud_forum_mentions weights
                    + age_score * account_age weights
                    + geo_score * geographic_anomalies weights;
                  total_score' = min 100 (max 0 total_score);
                  risk_lvl = determine_risk_level total_score'
              in Inr (py_round2 total_score', risk_lvl)))"

text \<open>The lookup table \<^verbatim>\<open>severity_scores\<close> with \<^verbatim>\<open>.get(severity, 50)\<close>.\<close>

definition severity_scores :: "string \<Rightarrow> rat option" where
  "severity_scores s =
     (if s = ''CRITICAL'' then Some 100
      else if s = ''HIGH'' then Some 80
      else if s = ''MEDIUM'' then Some 50
      else if s = ''LOW'' then Some 25
      else None)"

text \<open>
  \<^verbatim>\<open>get_factor_contribution(self, factor)\<close>: the first argument is the scorer's
  state, the working result it was built from.
\<close>

definition get_factor_contribution :: "results \<Rightarrow> factor \<Rightarrow> rat" where
  "get_factor_contribution r f =
     (let w = get_default (weight f) 1;
          sev = get_default (severity f) ''MEDIUM'';
          base_score = get_default (severity_scores sev) 50;
          contribution = base_score * w
      in py_round2 contribution)"

subsection \<open>Strings\<close>

text \<open>\<^verbatim>\<open>s.lower()\<close> on ASCII letters, and the substring test \<^verbatim>\<open>sub in s\<close>.\<close>

definition char_lower :: "char \<Rightarrow> char" where
  "char_lower c =
     (let n = (of_char c :: nat) in if 65 \<le> n \<and> n \<le> 90 then char_of (n + 32) else c)"

definition py_lower :: "string \<Rightarrow> string" where
  "py_lower s = map char_lower s"

fun starts_with :: "string \<Rightarrow> string \<Rightarrow> bool" where
  "starts_with [] s = True"
| "starts_with (c # cs) [] = False"
| "starts_with (c # cs) (d # ds) = (c = d \<and> starts_with cs ds)"

fun str_contains :: "string \<Rightarrow> string \<Rightarrow> bool" where
  "str_contains sub [] = (sub = [])"
| "str_contains sub (c # cs) = (starts_with sub (c # cs) \<or> str_contains sub cs)"

text \<open>\<^verbatim>\<open>a or b\<close> where \<^verbatim>\<open>a\<close> is an optional string: an absent or empty \<^verbatim>\<open>a\<close> is falsy.\<close>

definition py_or_str :: "string option \<Rightarrow> string \<Rightarrow> string" where
  "py_or_str a b = (case a of None \<Rightarrow> b | Some s \<Rightarrow> if s \<noteq> [] then s else b)"

subsection \<open>The providers as seen by the orchestrator\<close>

text \<open>
  What the \<^verbatim>\<open>phonenumbers\<close> library derives from a parsed number: the country
  code, \<^verbatim>\<open>carrier.name_for_number\<close>, \<^verbatim>\<open>number_type\<close>,
  \<^verbatim>\<open>geocoder.description_for_number\<close>, \<^verbatim>\<open>timezone.time_zones_for_number\<close> and
  \<^verbatim>\<open>is_valid_number\<close>. The lookups on a parsed number are table lookups of the
  library and are taken to be total; \<^verbatim>\<open>parse\<close> itself can raise.
\<close>

record parsed_number =
  pn_country_code :: int
  pn_carrier_name :: string
  pn_number_type :: int
  pn_description :: string
  pn_time_zones :: "string list"
  pn_is_valid :: bool

text \<open>
  The orchestrator imports its provider classes from the module
  \<^verbatim>\<open>app.services.osint_modules\<close>; each provider call is a parameter here: given the
  phone number it raises (\<open>Inl\<close>) or returns a payload (\<open>Inr\<close>).
\<close>

record providers =
  phonenumbers_parse :: "string \<Rightarrow> parsed_number raises"
  ipqs_check_fraud :: "string \<Rightarrow> ipqs_data raises"
  numverify_validate :: "string \<Rightarrow> numverify_data raises"
  social_scan :: "string \<Rightarrow> social_data raises"
  spam_check :: "string \<Rightarrow> spam_results raises"
  fraud_scan :: "string \<Rightarrow> fraud_results raises"
  telegram_scan :: "string \<Rightarrow> telegram_results raises"
  whatsapp_check :: "string \<Rightarrow> whatsapp_results raises"

subsection \<open>\<^verbatim>\<open>NumverifyValidator.validate\<close>\<close>

text \<open>
  The JSON object answered by the Numverify API. \<open>api_error_info\<close> is
  \<^verbatim>\<open>data['error']['info']\<close>, \<open>None\<close> when either key is absent. The record with every
  field \<open>None\<close> is the empty object.
\<close>

record numverify_api =
  api_valid :: "bool option"
  api_international_format :: "string option"
  api_local_format :: "string option"
  api_country_code :: "string option"
  api_country_name :: "string option"
  api_location :: "string option"
  api_carrier :: "string option"
  api_line_type :: "string option"
  api_error_info :: "string option"

definition empty_api :: numverify_api where
  "empty_api = \<lparr>api_valid = None, api_international_format = None, api_local_format = None,
     api_country_code = None, api_country_name = None, api_location = None,
     api_carrier = None, api_line_type = None, api_error_info = None\<rparr>"

text \<open>The two error payloads of \<^verbatim>\<open>validate\<close>: \<^verbatim>\<open>{'valid': False, 'error': msg}\<close>.\<close>

definition numverify_failure :: "string \<Rightarrow> numverify_data" where
  "numverify_failure msg =
     \<lparr>nv_error = Some msg, nv_valid = Some False, nv_number = None, nv_local_format = None,
      nv_country_code = None, nv_country_name = None, nv_location = None,
      nv_carrier = None, nv_line_type = None\<rparr>"

text \<open>
  \<open>validate key response\<close>: \<open>key\<close> is the module constant \<^verbatim>\<open>NUMVERIFY_API_KEY\<close>,
  \<open>response\<close> what \<^verbatim>\<open>_make_request\<close> returns (\<open>None\<close> after any request error).
\<close>

definition validate :: "string \<Rightarrow> numverify_api option \<Rightarrow> numverify_data" where
  "validate key response =
     (if key = [] then numverify_failure ''NUMVERIFY_API_KEY not configured''
      else
        (case response of
           None \<Rightarrow> numverify_failure ''API error''
         | Some data \<Rightarrow>
             if data \<noteq> empty_api \<and> truthy_bool (api_valid data) then
               \<lparr>nv_error = None, nv_valid = Some True,
                nv_number = Some (get_default (api_international_format data) []),
                nv_local_format = Some (get_default (api_local_format data) []),
                nv_country_code = Some (get_default (api_country_code data) []),
                nv_country_name = Some (get_default (api_country_name data) []),
                nv_location = Some (get_default (api_location data) []),
                nv_carrier = Some (get_default (api_carrier data) ''Unknown''),
                nv_line_type = Some (get_default (api_line_type data) ''Unknown'')\<rparr>
             else
               numverify_failure
                 (if data \<noteq> empty_api
                  then get_default (api_error_info data) ''Invalid number''
                  else ''API error'')))"

subsection \<open>\<^verbatim>\<open>PhoneAnalyzer\<close>\<close>

text \<open>
  The object state: the constructor's arguments and the working result. The field
  \<open>provider_calls\<close> is not a field of the Python object: it records, in order, the
  network provider calls the object has made, so that "no provider is invoked" can
  be stated.
\<close>

record analyzer =
  an_phone_number :: string
  an_deep_scan :: bool
  an_results :: results
  provider_calls :: "string list"

definition init_results :: "string \<Rightarrow> results" where
  "init_results pn =
     \<lparr>phone_number = pn, data_sources_used = [], risk_factors = [],
      country_code = None, carrier = None, line_type = None, location = None,
      timezones = None, rich_metadata = None, social_media_presence = None,
      spam_reports_count = None, spam_details = None, fraud_mentions_count = None,
      fraud_details = None, telegram_presence = None, whatsapp_presence = None,
      risk_score = None, risk_level = None, basic_info_error = None,
      rich_metadata_error = None, social_media_error = None, spam_check_error = None,
      fraud_scan_error = None, messaging_apps_error = None\<rparr>"

definition new_analyzer :: "string \<Rightarrow> bool \<Rightarrow> analyzer" where
  "new_analyzer pn deep =
     \<lparr>an_phone_number = pn, an_deep_scan = deep, an_results = init_results pn,
      provider_calls = []\<rparr>"

definition log_call :: "string \<Rightarrow> analyzer \<Rightarrow> analyzer" where
  "log_call name a = a\<lparr>provider_calls := provider_calls a @ [name]\<rparr>"

text \<open>The three updates every step makes to the working result.\<close>

definition add_sources :: "string list \<Rightarrow> results \<Rightarrow> results" where
  "add_sources srcs r = r\<lparr>data_sources_used := data_sources_used r @ srcs\<rparr>"

definition add_factor :: "factor \<Rightarrow> results \<Rightarrow> results" where
  "add_factor f r = r\<lparr>risk_factors := risk_factors r @ [f]\<rparr>"

definition upd_results :: "(results \<Rightarrow> results) \<Rightarrow> analyzer \<Rightarrow> analyzer" where
  "upd_results g a = a\<lparr>an_results := g (an_results a)\<rparr>"

definition get_basic_info :: "providers \<Rightarrow> analyzer \<Rightarrow> analyzer" where
  "get_basic_info env a =
     (case phonenumbers_parse env (an_phone_number a) of
        Inl e \<Rightarrow> upd_results (\<lambda>r. r\<lparr>basic_info_error := Some e\<rparr>) a
      | Inr parsed \<Rightarrow>
          upd_results (\<lambda>r. add_sources [''phonenumbers_library'']
            (r\<lparr>country_code := Some (''+'' @ str_int (pn_country_code parsed)),
               carrier := Some (py_or_str (Some (pn_carrier_name parsed)) ''Unknown''),
               line_type := Some (pn_number_type parsed),
               location := Some (py_or_str (Some (pn_description parsed)) ''Unknown''),
               timezones := Some (pn_time_zones parsed)\<rparr>)) a)"

text \<open>
  \<^verbatim>\<open>_get_rich_metadata\<close>, in the order of the source: the prepaid status, the four
  sub-records of \<^verbatim>\<open>rich_metadata\<close>, the porting detection, the estimated age, and the
  risk factors derived from the merged record.
\<close>

definition prepaid_status :: "ipqs_data \<Rightarrow> bool option" where
  "prepaid_status ipqs =
     (let prepaid = ipqs_prepaid ipqs;
          line_type_value = py_lower (get_default (ipqs_line_type ipqs) [])
      in if prepaid = None \<or>
            (prepaid = Some False \<and>
             (case ipqs_country ipqs of
                None \<Rightarrow> False
              | Some c \<Rightarrow> c \<in> set [''IN'', ''PH'', ''ID'', ''BD'']))
         then (if str_contains ''mobile'' line_type_value \<or>
                  str_contains ''wireless'' line_type_value
               then None else prepaid)
         else prepaid)"

definition compile_carrier_details :: "ipqs_data \<Rightarrow> numverify_data \<Rightarrow> carrier_details" where
  "compile_carrier_details ipqs nv =
     \<lparr>current_carrier = py_or_str (ipqs_carrier ipqs) (get_default (nv_carrier nv) ''Unknown''),
      original_carrier = get_default (nv_carrier nv) ''Unknown'',
      porting_detected = False,
      cd_line_type = py_or_str (ipqs_line_type ipqs) (get_default (nv_line_type nv) ''Unknown''),
      is_voip = get_default (ipqs_VOIP ipqs) False,
      is_prepaid = prepaid_status ipqs,
      porting_history = None\<rparr>"

definition compile_geographic_data ::
  "results \<Rightarrow> ipqs_data \<Rightarrow> numverify_data \<Rightarrow> geographic_data" where
  "compile_geographic_data r ipqs nv =
     \<lparr>gd_country = get_default (ipqs_country ipqs) [],
      gd_country_name = get_default (nv_country_name nv) [],
      gd_city = (if ipqs_city ipqs \<noteq> Some ''N/A'' then ipqs_city ipqs
                 else Some (get_default (nv_location nv) ''Unknown'')),
      gd_region = get_default (ipqs_region ipqs) ''Unknown'',
      gd_location_formatted = get_default (nv_location nv) [],
      gd_timezone = (case timezones r of Some (tz # rest) \<Rightarrow> tz | _ \<Rightarrow> ''Unknown''),
      gd_all_timezones = get_default (timezones r) []\<rparr>"

definition compile_number_status :: "ipqs_data \<Rightarrow> numverify_data \<Rightarrow> number_status" where
  "compile_number_status ipqs nv =
     \<lparr>ns_active = get_default (ipqs_active ipqs) True,
      ns_valid = get_default (nv_valid nv) False,
      ns_risky = get_default (ipqs_risky ipqs) False,
      ns_do_not_call = get_default (ipqs_do_not_call ipqs) False\<rparr>"

definition compile_reputation :: "ipqs_data \<Rightarrow> reputation_indicators" where
  "compile_reputation ipqs =
     \<lparr>ri_fraud_score = get_default (ipqs_fraud_score ipqs) 0,
      ri_spam_score = get_default (ipqs_spam_score ipqs) 0,
      ri_recent_abuse = get_default (ipqs_recent_abuse ipqs) False,
      ri_leak_detected = False\<rparr>"

definition detect_porting :: "carrier_details \<Rightarrow> carrier_details" where
  "detect_porting cd =
     (if current_carrier cd \<noteq> ''Unknown'' \<and> original_carrier cd \<noteq> ''Unknown'' \<and>
         current_carrier cd \<noteq> original_carrier cd
      then cd\<lparr>porting_detected := True,
              porting_history :=
                Some [\<lparr>pe_carrier = original_carrier cd, pe_status = ''Original''\<rparr>,
                      \<lparr>pe_carrier = current_carrier cd, pe_status = ''Current''\<rparr>]\<rparr>
      else cd)"

definition estimated_age :: "ipqs_data \<Rightarrow> string" where
  "estimated_age ipqs =
     (if truthy_bool (ipqs_active ipqs) then
        (if truthy_bool (ipqs_VOIP ipqs) then ''Recent (VOIP numbers are typically newer)''
         else if truthy_bool (ipqs_prepaid ipqs)
           then ''Variable (Prepaid numbers can be recycled)''
         else ''Established (Active traditional line)'')
      else ''Unknown or Inactive'')"

definition compile_rich_metadata ::
  "results \<Rightarrow> ipqs_data \<Rightarrow> numverify_data \<Rightarrow> rich_metadata" where
  "compile_rich_metadata r ipqs nv =
     \<lparr>rm_carrier_details = detect_porting (compile_carrier_details ipqs nv),
      rm_geographic_data = compile_geographic_data r ipqs nv,
      rm_number_status = compile_number_status ipqs nv,
      rm_reputation_indicators = compile_reputation ipqs,
      rm_estimated_age = Some (estimated_age ipqs)\<rparr>"

definition voip_factor :: factor where
  "voip_factor =
     \<lparr>category = Some ''carrier'', factor_type = Some ''voip_number'',
      severity = Some ''MEDIUM'', weight = Some (15 / 100),
      description = Some ''VOIP numbers are commonly used in fraud schemes'',
      evidence = Some (EvVoip True), source = Some ''Carrier Analysis'',
      score_contribution = None\<rparr>"

definition porting_factor :: "carrier_details \<Rightarrow> factor" where
  "porting_factor cd =
     \<lparr>category = Some ''carrier'', factor_type = Some ''porting_detected'',
      severity = Some ''LOW'', weight = Some (10 / 100),
      description = Some ''Number has been ported between carriers'',
      evidence = Some (EvPorting (get_default (porting_history cd) [])),
      source = Some ''Carrier Analysis'', score_contribution = None\<rparr>"

definition do_not_call_factor :: factor where
  "do_not_call_factor =
     \<lparr>category = Some ''compliance'', factor_type = Some ''do_not_call_registry'',
      severity = Some ''LOW'', weight = Some (5 / 100),
      description = Some ''Number is on Do Not Call registry'',
      evidence = Some (EvDoNotCall True), source = Some ''Compliance Check'',
      score_contribution = None\<rparr>"

definition metadata_factors :: "rich_metadata \<Rightarrow> factor list" where
  "metadata_factors rm =
     (if is_voip (rm_carrier_details rm) then [voip_factor] else [])
     @ (if porting_detected (rm_carrier_details rm)
        then [porting_factor (rm_carrier_details rm)] else [])
     @ (if ns_do_not_call (rm_number_status rm) then [do_not_call_factor] else [])"

definition get_rich_metadata :: "providers \<Rightarrow> analyzer \<Rightarrow> analyzer" where
  "get_rich_metadata env a =
     (let a1 = log_call ''IPQualityScoreChecker.check_fraud'' a
      in case ipqs_check_fraud env (an_phone_number a) of
           Inl e \<Rightarrow> upd_results (\<lambda>r. r\<lparr>rich_metadata_error := Some e\<rparr>) a1
         | Inr ipqs \<Rightarrow>
             (let a2 = log_call ''NumverifyValidator.validate'' a1
              in case numverify_validate env (an_phone_number a) of
                   Inl e \<Rightarrow> upd_results (\<lambda>r. r\<lparr>rich_metadata_error := Some e\<rparr>) a2
                 | Inr nv \<Rightarrow>
                     upd_results (\<lambda>r.
                       (let rm = compile_rich_metadata r ipqs nv;
                            r1 = add_sources [''IPQualityScore'', ''Numverify'']
                                   (r\<lparr>rich_metadata := Some rm\<rparr>)
                        in r1\<lparr>risk_factors := risk_factors r1 @ metadata_factors rm\<rparr>)) a2))"

definition check_social_media :: "providers \<Rightarrow> analyzer \<Rightarrow> analyzer" where
  "check_social_media env a =
     (let a1 = log_call ''SocialMediaScanner.scan'' a
      in case social_scan env (an_phone_number a) of
           Inl e \<Rightarrow> upd_results (\<lambda>r. r\<lparr>social_media_error := Some e\<rparr>) a1
         | Inr social_results \<Rightarrow>
             upd_results (\<lambda>r.
               (let r1 = add_sources [''social_media_scan'']
                           (r\<lparr>social_media_presence := Some social_results\<rparr>)
                in if truthy_bool (anomaly_detected social_results) then
                     add_factor
                       \<lparr>category = Some ''social_media'',
                        factor_type = Some ''suspicious_activity'',
                        severity = Some (get_default (social_severity social_results) ''MEDIUM''),
                        weight = Some (30 / 100),
                        description = anomaly_description social_results,
                        evidence = Some (EvSocial social_results),
                        source = Some ''Social Media Scan'',
                        score_contribution = None\<rparr> r1
                   else r1)) a1)"

definition check_spam_databases :: "providers \<Rightarrow> analyzer \<Rightarrow> analyzer" where
  "check_spam_databases env a =
     (let a1 = log_call ''SpamDatabaseChecker.check'' a
      in case spam_check env (an_phone_number a) of
           Inl e \<Rightarrow> upd_results (\<lambda>r. r\<lparr>spam_check_error := Some e\<rparr>) a1
         | Inr spam \<Rightarrow>
             upd_results (\<lambda>r.
               (let r1 = add_sources (get_default (sources spam) [])
                           (r\<lparr>spam_reports_count := Some (get_default (total_reports spam) 0),
                              spam_details := Some (get_default (details spam) [])\<rparr>)
                in if 0 < get_default (total_reports spam) 0 then
                     add_factor
                       \<lparr>category = Some ''spam_reports'',
                        factor_type = Some ''reported_spam'',
                        severity = Some (if 10 < get_default (total_reports spam) 0
                                         then ''HIGH'' else ''MEDIUM''),
                        weight = Some (25 / 100),
                        description =
                          Some (''Number reported ''
                                @ str_int (get_default (total_reports spam) 0)
                                @ '' times in spam databases''),
                        evidence = Some (EvSpam spam),
                        source = Some ''Spam Databases'',
                        score_contribution = None\<rparr> r1
                   else r1)) a1)"

definition check_fraud_forums :: "providers \<Rightarrow> analyzer \<Rightarrow> analyzer" where
  "check_fraud_forums env a =
     (let a1 = log_call ''FraudForumScanner.scan'' a
      in case fraud_scan env (an_phone_number a) of
           Inl e \<Rightarrow> upd_results (\<lambda>r. r\<lparr>fraud_scan_error := Some e\<rparr>) a1
         | Inr fraud \<Rightarrow>
             upd_results (\<lambda>r.
               (let r1 = add_sources [''fraud_forum_scan'']
                           (r\<lparr>fraud_mentions_count := Some (get_default (mentions_count fraud) 0),
                              fraud_details := Some (get_default (mentions fraud) [])\<rparr>)
                in if 0 < get_default (mentions_count fraud) 0 then
                     add_factor
                       \<lparr>category = Some ''fraud_forum'',
                        factor_type = Some ''fraud_mention'',
                        severity = Some ''HIGH'',
                        weight = Some (25 / 100),
                        description =
                          Some (''Number mentioned in ''
                                @ str_int (get_default (mentions_count fraud) 0)
                                @ '' fraud-related discussions''),
                        evidence = Some (EvFraud fraud),
                        source = Some ''Fraud Forums'',
                        score_contribution = None\<rparr> r1
                   else r1)) a1)"

definition check_messaging_apps :: "providers \<Rightarrow> analyzer \<Rightarrow> analyzer" where
  "check_messaging_apps env a =
     (let a1 = log_call ''TelegramScanner.scan'' a
      in case telegram_scan env (an_phone_number a) of
           Inl e \<Rightarrow> upd_results (\<lambda>r. r\<lparr>messaging_apps_error := Some e\<rparr>) a1
         | Inr telegram \<Rightarrow>
             (let a2 = log_call ''WhatsAppChecker.check''
                         (upd_results (\<lambda>r. r\<lparr>telegram_presence := Some telegram\<rparr>) a1)
              in case whatsapp_check env (an_phone_number a) of
                   Inl e \<Rightarrow> upd_results (\<lambda>r. r\<lparr>messaging_apps_error := Some e\<rparr>) a2
                 | Inr whatsapp \<Rightarrow>
                     upd_results (\<lambda>r.
                       (let r1 = add_sources [''telegram_scan'', ''whatsapp_check'']
                                   (r\<lparr>whatsapp_presence := Some whatsapp\<rparr>)
                        in if truthy_list (suspicious_groups telegram) then
                             add_factor
                               \<lparr>category = Some ''messaging_apps'',
                                factor_type = Some ''suspicious_telegram_activity'',
                                severity = Some ''MEDIUM'',
                                weight = Some (10 / 100),
                                description =
                                  Some (''Found in ''
                                        @ str_nat (length (get_default (suspicious_groups telegram) []))
                                        @ '' suspicious Telegram groups''),
                                evidence = Some (EvTelegram telegram),
                                source = Some ''Telegram'',
                                score_contribution = None\<rparr> r1
                           else r1)) a2))"

text \<open>
  \<^verbatim>\<open>_calculate_risk\<close>: an exception of the scorer is not caught here. The loop over
  the risk factors stores each factor's contribution; the scorer object it calls
  holds the working result.
\<close>

definition calculate_risk :: "analyzer \<Rightarrow> analyzer raises" where
  "calculate_risk a =
     (case calculate (an_results a) of
        Inl e \<Rightarrow> Inl e
      | Inr (score, lvl) \<Rightarrow>
          Inr (upd_results (\<lambda>r.
                 (let r1 = r\<lparr>risk_score := Some score, risk_level := Some lvl\<rparr>
                  in r1\<lparr>risk_factors :=
                          map (\<lambda>f. f\<lparr>score_contribution := Some (get_factor_contribution r1 f)\<rparr>)
                            (risk_factors r1)\<rparr>)) a))"

text \<open>The six evidence steps of \<^verbatim>\<open>analyze\<close>, in order.\<close>

definition gather :: "providers \<Rightarrow> analyzer \<Rightarrow> analyzer" where
  "gather env a =
     check_messaging_apps env
       (check_fraud_forums env
         (check_spam_databases env
           (check_social_media env
             (get_rich_metadata env
               (get_basic_info env a)))))"

text \<open>
  \<^verbatim>\<open>analyze\<close> returns \<^verbatim>\<open>self.results\<close>, or raises \<^verbatim>\<open>Exception("Analysis failed: ...")\<close>;
  the first component is the object after the call.
\<close>

definition analyze :: "providers \<Rightarrow> analyzer \<Rightarrow> analyzer \<times> results raises" where
  "analyze env a =
     (let a6 = gather env a
      in case calculate_risk a6 of
           Inl e \<Rightarrow> (a6, Inl (''Analysis failed: '' @ e))
         | Inr a7 \<Rightarrow> (a7, Inr (an_results a7)))"

subsection \<open>\<^verbatim>\<open>validate_phone_number\<close>\<close>

text \<open>
  The result is the pair \<^verbatim>\<open>(is_valid, error_message)\<close>. An exception of
  \<^verbatim>\<open>phonenumbers.parse\<close> is a \<^verbatim>\<open>NumberParseException\<close>; the library is local and is
  not a network provider.
\<close>

definition validate_phone_number :: "providers \<Rightarrow> string option \<Rightarrow> bool \<times> string option" where
  "validate_phone_number env pn =
     (case pn of
        None \<Rightarrow> (False, Some ''Phone number is required'')
      | Some s \<Rightarrow>
          if s = [] then (False, Some ''Phone number is required'')
          else
            (case phonenumbers_parse env s of
               Inl e \<Rightarrow> (False, Some (''Invalid phone number: '' @ e))
             | Inr parsed \<Rightarrow>
                 if \<not> pn_is_valid parsed then (False, Some ''Invalid phone number format'')
                 else (True, None)))"

subsection \<open>The route \<^verbatim>\<open>analyze_phone\<close>\<close>

text \<open>
  A row of the table \<^verbatim>\<open>phone_analyses\<close> with the risk factors related to it. Times
  are microseconds since the epoch. The JSON rendering \<^verbatim>\<open>to_dict\<close> of a row is a
  function of the row alone, so a response carries the row.
\<close>

record phone_analysis =
  pa_id :: nat
  pa_phone_number :: string
  pa_country_code :: "string option"
  pa_carrier :: "string option"
  pa_line_type :: "int option"
  pa_risk_score :: "rat option"
  pa_risk_level :: "string option"
  pa_social_media_presence :: "social_data option"
  pa_spam_reports_count :: "int option"
  pa_fraud_mentions_count :: "int option"
  pa_telegram_presence :: "telegram_results option"
  pa_whatsapp_presence :: "whatsapp_results option"
  pa_rich_metadata :: "rich_metadata option"
  pa_analysis_date :: int
  pa_analysis_duration :: rat
  pa_data_sources_used :: "string list"
  pa_risk_factors :: "factor list"

text \<open>The JSON body of the request.\<close>

record request_body =
  rq_phone_number :: "string option"
  rq_deep_scan :: "bool option"

text \<open>
  The clock readings of one request: \<^verbatim>\<open>datetime.utcnow()\<close> in the freshness query,
  the measured duration of the analysis, and \<^verbatim>\<open>datetime.utcnow\<close> when the row is
  inserted.
\<close>

record clock =
  query_time :: int
  duration :: rat
  insert_time :: int

datatype response =
    AnalysisResponse string phone_analysis nat
  | ErrorResponse string nat

definition hours24 :: int where
  "hours24 = 24 * 3600 * 1000000"

text \<open>
  The freshness query \<^verbatim>\<open>filter_by(phone_number=...).filter(analysis_date > utcnow - 24h).first()\<close>;
  the query has no ordering clause, the first matching row in table order is taken.
\<close>

definition recent_analysis :: "clock \<Rightarrow> phone_analysis list \<Rightarrow> string \<Rightarrow> phone_analysis option" where
  "recent_analysis clk db number =
     find (\<lambda>row. pa_phone_number row = number \<and>
                 query_time clk - hours24 < pa_analysis_date row) db"

text \<open>
  The row built from the analysis result. The columns \<^verbatim>\<open>risk_score\<close>,
  \<^verbatim>\<open>spam_reports_count\<close> and \<^verbatim>\<open>fraud_mentions_count\<close> are declared with a default,
  which fills a value that is \<^verbatim>\<open>None\<close> at insertion.
\<close>

definition new_row :: "clock \<Rightarrow> phone_analysis list \<Rightarrow> string \<Rightarrow> results \<Rightarrow> phone_analysis" where
  "new_row clk db number res =
     \<lparr>pa_id = Suc (fold max (map pa_id db) 0),
      pa_phone_number = number,
      pa_country_code = country_code res,
      pa_carrier = carrier res,
      pa_line_type = line_type res,
      pa_risk_score = Some (get_default (risk_score res) 0),
      pa_risk_level = risk_level res,
      pa_social_media_presence = social_media_presence res,
      pa_spam_reports_count = Some (get_default (spam_reports_count res) 0),
      pa_fraud_mentions_count = Some (get_default (fraud_mentions_count res) 0),
      pa_telegram_presence = telegram_presence res,
      pa_whatsapp_presence = whatsapp_presence res,
      pa_rich_metadata = rich_metadata res,
      pa_analysis_date = insert_time clk,
      pa_analysis_duration = duration clk,
      pa_data_sources_used = data_sources_used res,
      pa_risk_factors = risk_factors res\<rparr>"

text \<open>
  The outcome of one request with a JSON object as body: the response, the table
  afterwards, and the provider calls made while serving it. An exception of
  \<^verbatim>\<open>analyze\<close> is answered with status 500 after a rollback, which leaves the table as
  it was.
\<close>

definition perform_new_analysis ::
  "providers \<Rightarrow> clock \<Rightarrow> phone_analysis list \<Rightarrow> string \<Rightarrow> bool
     \<Rightarrow> response \<times> phone_analysis list \<times> string list" where
  "perform_new_analysis env clk db number deep_scan =
     (case analyze env (new_analyzer number deep_scan) of
        (a, Inl e) \<Rightarrow> (ErrorResponse e 500, db, provider_calls a)
      | (a, Inr res) \<Rightarrow>
          (let row = new_row clk db number res
           in (AnalysisResponse ''Analysis completed successfully'' row 201,
               db @ [row], provider_calls a)))"

definition analyze_phone ::
  "providers \<Rightarrow> clock \<Rightarrow> phone_analysis list \<Rightarrow> request_body
     \<Rightarrow> response \<times> phone_analysis list \<times> string list" where
  "analyze_phone env clk db data =
     (let pn = rq_phone_number data;
          deep_scan = get_default (rq_deep_scan data) False
      in case validate_phone_number env pn of
           (False, error_msg) \<Rightarrow> (ErrorResponse (get_default error_msg []) 400, db, [])
         | (True, error_msg) \<Rightarrow>
             (let number = get_default pn []
              in case recent_analysis clk db number of
                   None \<Rightarrow> perform_new_analysis env clk db number deep_scan
                 | Some row \<Rightarrow>
                     if \<not> deep_scan
                     then (AnalysisResponse ''Using cached analysis from last 24 hours'' row 200,
                           db, [])
                     else perform_new_analysis env clk db number deep_scan))"

subsection \<open>Example inputs\<close>

text \<open>
  The providers of \<^verbatim>\<open>osint_modules_real.py\<close> when no API key is configured (warning
  texts left out), with a number the library parses.
\<close>

definition example_parsed :: parsed_number where
  "example_parsed =
     \<lparr>pn_country_code = 1, pn_carrier_name = [], pn_number_type = 2,
      pn_description = ''San Francisco, CA'', pn_time_zones = [''America/Los_Angeles''],
      pn_is_valid = True\<rparr>"

definition ipqs_unconfigured :: ipqs_data where
  "ipqs_unconfigured =
     \<lparr>ipqs_error = Some ''IPQUALITYSCORE_API_KEY not configured'', ipqs_fraud_score = Some 0,
      ipqs_recent_abuse = None, ipqs_VOIP = None, ipqs_prepaid = None, ipqs_risky = None,
      ipqs_active = None, ipqs_carrier = None, ipqs_line_type = None, ipqs_country = None,
      ipqs_city = None, ipqs_region = None, ipqs_spam_score = None,
      ipqs_do_not_call = None\<rparr>"

definition unconfigured :: providers where
  "unconfigured =
     \<lparr>phonenumbers_parse = (\<lambda>pn. Inr example_parsed),
      ipqs_check_fraud = (\<lambda>pn. Inr ipqs_unconfigured),
      numverify_validate = (\<lambda>pn. Inr (validate [] None)),
      social_scan = (\<lambda>pn. Inr \<lparr>platforms_checked = Some [], accounts_found = Some [],
         anomaly_detected = Some False, anomaly_description = None,
         social_severity = None, social_warning = None\<rparr>),
      spam_check = (\<lambda>pn. Inr \<lparr>total_reports = Some 0, details = Some [], sources = Some [],
         categories = Some []\<rparr>),
      fraud_scan = (\<lambda>pn. Inr \<lparr>mentions_count = Some 0, mentions = Some [],
         fr_risk_level = Some ''LOW'', sources_checked = Some [''IPQualityScore'']\<rparr>),
      telegram_scan = (\<lambda>pn. Inr \<lparr>has_telegram_account = Some False, public_username = None,
         suspicious_groups = None, tg_warning = None\<rparr>),
      whatsapp_check = (\<lambda>pn. Inr \<lparr>has_whatsapp = Some False, business_account = Some False,
         wa_warning = None\<rparr>)\<rparr>"

text \<open>
  The scenario of the two carriers: the fraud-score provider reports fraud score 80,
  recent abuse, VOIP and carrier "CarrierB"; the validity provider reports carrier
  "CarrierA".
\<close>

definition ipqs_scenario :: ipqs_data where
  "ipqs_scenario =
     ipqs_unconfigured\<lparr>ipqs_error := None, ipqs_fraud_score := Some 80,
       ipqs_recent_abuse := Some True, ipqs_VOIP := Some True,
       ipqs_carrier := Some ''CarrierB''\<rparr>"

definition numverify_scenario :: numverify_data where
  "numverify_scenario =
     (numverify_failure [])\<lparr>nv_error := None, nv_valid := Some True,
       nv_carrier := Some ''CarrierA''\<rparr>"

definition scenario_providers :: providers where
  "scenario_providers =
     unconfigured\<lparr>ipqs_check_fraud := (\<lambda>pn. Inr ipqs_scenario),
       numverify_validate := (\<lambda>pn. Inr numverify_scenario)\<rparr>"


definition example_number :: string where
  "example_number = ''+14158586273''"

definition example_clock :: clock where
  "example_clock = \<lparr>query_time = 90000000000, duration = 2, insert_time = 90002000000\<rparr>"

text \<open>A stored analysis of the example number, one hour old at \<open>example_clock\<close>.\<close>

definition example_row :: phone_analysis where
  "example_row =
     \<lparr>pa_id = 1, pa_phone_number = example_number, pa_country_code = Some ''+1'',
      pa_carrier = Some ''Unknown'', pa_line_type = Some 2, pa_risk_score = Some 3,
      pa_risk_level = Some ''MINIMAL'', pa_social_media_presence = None,
      pa_spam_reports_count = Some 0, pa_fraud_mentions_count = Some 0,
      pa_telegram_presence = None, pa_whatsapp_presence = None, pa_rich_metadata = None,
      pa_analysis_date = 86400000000, pa_analysis_duration = 2,
      pa_data_sources_used = [''phonenumbers_library''], pa_risk_factors = []\<rparr>"

text \<open>A found account whose payload has no \<^verbatim>\<open>account_age_days\<close> entry.\<close>

definition ageless_account :: account where
  "ageless_account = \<lparr>platform = Some ''facebook'', account_age_days = None\<rparr>"

subsection \<open>Notions used to state the properties\<close>

text \<open>
  The risk levels in increasing order of severity, MINIMAL lowest and CRITICAL
  highest; a string that is no level has no rank.
\<close>

definition level_rank :: "string \<Rightarrow> nat option" where
  "level_rank l =
     (if l = ''MINIMAL'' then Some 0
      else if l = ''LOW'' then Some 1
      else if l = ''MEDIUM'' then Some 2
      else if l = ''HIGH'' then Some 3
      else if l = ''CRITICAL'' then Some 4
      else None)"

text \<open>A provider call that returned a payload, as opposed to one that raised.\<close>

definition returned :: "'a raises \<Rightarrow> bool" where
  "returned x = (case x of Inl e \<Rightarrow> False | Inr v \<Rightarrow> True)"

text \<open>The working result with a given spam report count, and with a social-media payload
  holding given found accounts.\<close>

definition with_spam_count :: "int \<Rightarrow> results \<Rightarrow> results" where
  "with_spam_count n r = r\<lparr>spam_reports_count := Some n\<rparr>"

definition with_accounts :: "account list \<Rightarrow> social_data \<Rightarrow> results \<Rightarrow> results" where
  "with_accounts accs social r =
     r\<lparr>social_media_presence := Some (social\<lparr>accounts_found := Some accs\<rparr>)\<rparr>"

text \<open>An account with a missing age filled in by a given number of days.\<close>

definition fill_age :: "int \<Rightarrow> account \<Rightarrow> account" where
  "fill_age d acc = acc\<lparr>account_age_days := Some (get_default (account_age_days acc) d)\<rparr>"

section \<open>Properties of the scorer\<close>

lemma round_half_even_ge_floor: "\<lfloor>x\<rfloor> \<le> round_half_even x"
  by (simp add: round_half_even_def Let_def)

lemma round_half_even_le_ceiling: "round_half_even x \<le> \<lceil>x\<rceil>"
proof -
  have "\<lfloor>x\<rfloor> \<le> \<lceil>x\<rceil>" by (rule floor_le_ceiling)
  moreover have "\<lfloor>x\<rfloor> + 1 \<le> \<lceil>x\<rceil>" if "0 < x - of_int \<lfloor>x\<rfloor>"
  proof -
    from that have "of_int \<lfloor>x\<rfloor> < x" by simp
    then have "\<lfloor>x\<rfloor> < \<lceil>x\<rceil>" by (simp add: less_ceiling_iff)
    then show ?thesis by simp
  qed
  ultimately show ?thesis
    by (auto simp: round_half_even_def Let_def not_less)
qed

lemma py_round2_bounds:
  assumes "0 \<le> x" and "x \<le> 100"
  shows "0 \<le> py_round2 x" and "py_round2 x \<le> 100"
proof -
  have "0 \<le> \<lfloor>x * 100\<rfloor>" using assms(1) by simp
  then have "0 \<le> round_half_even (x * 100)"
    using round_half_even_ge_floor [of "x * 100"] by linarith
  then show "0 \<le> py_round2 x" by (simp add: py_round2_def)
  have "x * 100 \<le> of_int 10000" using assms(2) by simp
  then have "\<lceil>x * 100\<rceil> \<le> 10000" by (simp only: ceiling_le_iff)
  then have "round_half_even (x * 100) \<le> 10000"
    using round_half_even_le_ceiling [of "x * 100"] by linarith
  then have "(of_int (round_half_even (x * 100)) :: rat) \<le> of_int 10000"
    by (simp only: of_int_le_iff)
  then show "py_round2 x \<le> 100" by (simp add: py_round2_def)
qed


lemma account_age_never_raises: "\<exists>v. calculate_account_age_score r = Inr v"
  by (simp add: calculate_account_age_score_def Let_def py_truediv_def)

lemma weights_sum:
  "social_media_anomalies weights + spam_reports weights + fraud_forum_mentions weights
     + account_age weights + geographic_anomalies weights = 1"
  by (simp add: weights_def)

lemma calculate_unfold:
  assumes "calculate_account_age_score r = Inr age"
  shows "calculate r =
           (let total = min 100 (max 0
                  (calculate_social_media_score r * (30 / 100)
                   + calculate_spam_score r * (25 / 100)
                   + calculate_fraud_score r * (25 / 100)
                   + age * (10 / 100)
                   + calculate_geographic_score r * (10 / 100)))
            in Inr (py_round2 total, determine_risk_level total))"
  using assms by (simp add: calculate_def Let_def weights_def)


lemma calculate_spam12: "calculate (with_spam_count 12 (init_results pn)) = Inr (105 / 4, ''LOW'')"
proof -
  have age: "calculate_account_age_score (with_spam_count 12 (init_results pn)) = Inr 30"
    by (simp add: calculate_account_age_score_def get_social_data_def get_default_def
        init_results_def empty_social_def with_spam_count_def)
  have others: "calculate_social_media_score (with_spam_count 12 (init_results pn)) = 0"
    "calculate_spam_score (with_spam_count 12 (init_results pn)) = 85"
    "calculate_fraud_score (with_spam_count 12 (init_results pn)) = 0"
    "calculate_geographic_score (with_spam_count 12 (init_results pn)) = 20"
    by (simp_all add: calculate_social_media_score_def calculate_spam_score_def
        calculate_fraud_score_def calculate_geographic_score_def get_social_data_def
        get_default_def truthy_bool_def init_results_def empty_social_def with_spam_count_def)
  have "py_round2 (105 / 4) = 105 / 4" by code_simp
  then show ?thesis
    by (simp add: calculate_unfold [OF age] others determine_risk_level_def)
qed

text \<open>
  Claim C1. For every working result \<^verbatim>\<open>calculate\<close> returns, and its score is the sum of
  the five category sub-scores (social media, spam reports, fraud-forum mentions,
  account age, geographic), each times its weight 0.30, 0.25, 0.25, 0.10, 0.10, clamped
  to the interval from 0 to 100 and rounded to two decimals; the weights sum to 1 and
  the returned score lies between 0 and 100.
\<close>

theorem calculate_weighted_sum:
  "\<exists>age score lvl.
     calculate_account_age_score r = Inr age \<and>
     calculate r = Inr (score, lvl) \<and>
     score = py_round2 (min 100 (max 0
               (calculate_social_media_score r * (30 / 100)
                + calculate_spam_score r * (25 / 100)
                + calculate_fraud_score r * (25 / 100)
                + age * (10 / 100)
                + calculate_geographic_score r * (10 / 100)))) \<and>
     0 \<le> score \<and> score \<le> 100 \<and>
     social_media_anomalies weights = 30 / 100 \<and> spam_reports weights = 25 / 100 \<and>
     fraud_forum_mentions weights = 25 / 100 \<and> account_age weights = 10 / 100 \<and>
     geographic_anomalies weights = 10 / 100 \<and>
     social_media_anomalies weights + spam_reports weights + fraud_forum_mentions weights
       + account_age weights + geographic_anomalies weights = 1"
proof -
  obtain age where age: "calculate_account_age_score r = Inr age"
    using account_age_never_raises by blast
  define total where "total = min 100 (max 0
               (calculate_social_media_score r * (30 / 100)
                + calculate_spam_score r * (25 / 100)
                + calculate_fraud_score r * (25 / 100)
                + age * (10 / 100)
                + calculate_geographic_score r * (10 / 100)))"
  have range: "0 \<le> total" "total \<le> 100" by (simp_all add: total_def)
  have "calculate r = Inr (py_round2 total, determine_risk_level total)"
    using calculate_unfold [OF age] by (simp add: total_def Let_def)
  with age py_round2_bounds [OF range] weights_sum show ?thesis
    unfolding total_def by (auto simp: weights_def)
qed

theorem calculate_weighted_sum_witness:
  "calculate (with_spam_count 12 (init_results example_number)) = Inr (105 / 4, ''LOW'') \<and>
   (0::rat) \<le> 105 / 4 \<and> (105 / 4 :: rat) \<le> 100"
  using calculate_weighted_sum [of "with_spam_count 12 (init_results example_number)"]
    calculate_spam12 [of example_number]
  by simp

text \<open>
  Claim C2. The risk level is a function of the score with inclusive lower thresholds:
  70 and above is HIGH, from 40 up to but excluding 70 is MEDIUM, from 20 up to but
  excluding 40 is LOW, below 20 is MINIMAL; 70 itself is HIGH and 69.99 is MEDIUM; the
  level is never CRITICAL; and a larger score never has a lower level.
\<close>

theorem determine_risk_level_thresholds:
  "(70 \<le> s \<longrightarrow> determine_risk_level s = ''HIGH'') \<and>
   (40 \<le> s \<and> s < 70 \<longrightarrow> determine_risk_level s = ''MEDIUM'') \<and>
   (20 \<le> s \<and> s < 40 \<longrightarrow> determine_risk_level s = ''LOW'') \<and>
   (s < 20 \<longrightarrow> determine_risk_level s = ''MINIMAL'') \<and>
   determine_risk_level 70 = ''HIGH'' \<and>
   determine_risk_level (6999 / 100) = ''MEDIUM'' \<and>
   determine_risk_level s \<noteq> ''CRITICAL'' \<and>
   (s \<le> t \<longrightarrow> (\<exists>i j. level_rank (determine_risk_level s) = Some i \<and>
                       level_rank (determine_risk_level t) = Some j \<and> i \<le> j))"
  by (simp add: determine_risk_level_def level_rank_def)

theorem determine_risk_level_thresholds_witness:
  "determine_risk_level 70 = ''HIGH'' \<and> determine_risk_level 100 = ''HIGH'' \<and>
   determine_risk_level 40 = ''MEDIUM'' \<and> determine_risk_level (6999 / 100) = ''MEDIUM'' \<and>
   determine_risk_level 20 = ''LOW'' \<and> determine_risk_level (3999 / 100) = ''LOW'' \<and>
   determine_risk_level (1999 / 100) = ''MINIMAL'' \<and> determine_risk_level 0 = ''MINIMAL'' \<and>
   level_rank (determine_risk_level 20) = Some 1 \<and> level_rank (determine_risk_level 70) = Some 3"
  using determine_risk_level_thresholds [of 70 100] determine_risk_level_thresholds [of 100 100]
    determine_risk_level_thresholds [of 40 70] determine_risk_level_thresholds [of 20 70]
    determine_risk_level_thresholds [of "3999 / 100" 70]
    determine_risk_level_thresholds [of "1999 / 100" 70]
    determine_risk_level_thresholds [of 0 70]
  by (simp add: level_rank_def)

text \<open>
  Claim C3. For a spam report count \<open>n \<ge> 0\<close> the spam sub-score is 0 for \<open>n = 0\<close>, 30 for
  1 to 3, 60 for 4 to 10, 85 for 11 to 20 and 100 above 20, and it never decreases
  when the count grows.
\<close>

theorem spam_score_bands:
  assumes "0 \<le> n"
  shows "(n = 0 \<longrightarrow> calculate_spam_score (with_spam_count n r) = 0) \<and>
         (1 \<le> n \<and> n \<le> 3 \<longrightarrow> calculate_spam_score (with_spam_count n r) = 30) \<and>
         (4 \<le> n \<and> n \<le> 10 \<longrightarrow> calculate_spam_score (with_spam_count n r) = 60) \<and>
         (11 \<le> n \<and> n \<le> 20 \<longrightarrow> calculate_spam_score (with_spam_count n r) = 85) \<and>
         (20 < n \<longrightarrow> calculate_spam_score (with_spam_count n r) = 100) \<and>
         (\<forall>m r'. 0 \<le> m \<and> m \<le> n \<longrightarrow>
            calculate_spam_score (with_spam_count m r')
              \<le> calculate_spam_score (with_spam_count n r))"
  using assms
  by (auto simp: calculate_spam_score_def with_spam_count_def get_default_def)

theorem spam_score_bands_witness:
  "calculate_spam_score (with_spam_count 0 (init_results example_number)) = 0 \<and>
   calculate_spam_score (with_spam_count 3 (init_results example_number)) = 30 \<and>
   calculate_spam_score (with_spam_count 4 (init_results example_number)) = 60 \<and>
   calculate_spam_score (with_spam_count 10 (init_results example_number)) = 60 \<and>
   calculate_spam_score (with_spam_count 11 (init_results example_number)) = 85 \<and>
   calculate_spam_score (with_spam_count 20 (init_results example_number)) = 85 \<and>
   calculate_spam_score (with_spam_count 21 (init_results example_number)) = 100 \<and>
   calculate_spam_score (with_spam_count 3 (init_results example_number))
     \<le> calculate_spam_score (with_spam_count 4 (init_results example_number))"
  using spam_score_bands [of 0 "init_results example_number"]
    spam_score_bands [of 3 "init_results example_number"]
    spam_score_bands [of 4 "init_results example_number"]
    spam_score_bands [of 10 "init_results example_number"]
    spam_score_bands [of 11 "init_results example_number"]
    spam_score_bands [of 20 "init_results example_number"]
    spam_score_bands [of 21 "init_results example_number"]
  by simp







lemma age_fill:
  "(\<lambda>acc. get_default (account_age_days acc) d) \<circ> fill_age d
     = (\<lambda>acc. get_default (account_age_days acc) d)"
  by (rule ext) (simp add: fill_age_def get_default_def split: option.splits)

lemma recent_fill:
  "(\<lambda>acc. get_default (account_age_days acc) d < k) \<circ> fill_age d
     = (\<lambda>acc. get_default (account_age_days acc) d < k)"
  by (rule ext) (simp add: fill_age_def get_default_def split: option.splits)

text \<open>
  Claim C10. An account without \<^verbatim>\<open>account_age_days\<close> is read as 0 days old by the
  account-age sub-scorer and as 999 days old by the recent-account filter of the
  social-media sub-scorer. A single such account gives account-age sub-score 90 and is
  not a recent account, so the social-media sub-score stays 0; read as 999 days it
  would give account-age sub-score 0, and read as 0 days it would count as recent
  (social-media sub-score 30 once an anomaly is flagged).
\<close>

theorem missing_age_inconsistent:
  "calculate_account_age_score (with_accounts accs social r)
     = calculate_account_age_score (with_accounts (map (fill_age 0) accs) social r) \<and>
   calculate_social_media_score (with_accounts accs social r)
     = calculate_social_media_score (with_accounts (map (fill_age 999) accs) social r) \<and>
   (account_age_days acc = None \<longrightarrow>
      calculate_account_age_score (with_accounts [acc] social r) = Inr 90 \<and>
      filter (\<lambda>a. get_default (account_age_days a) 999 < 30) [acc] = [] \<and>
      calculate_social_media_score (with_accounts [acc] social r) = 0 \<and>
      calculate_account_age_score (with_accounts [fill_age 999 acc] social r) = Inr 0 \<and>
      (truthy_bool (anomaly_detected social) \<longrightarrow>
         calculate_social_media_score (with_accounts [fill_age 0 acc] social r) = 30))"
proof -
  have a: "calculate_account_age_score (with_accounts accs social r)
     = calculate_account_age_score (with_accounts (map (fill_age 0) accs) social r)"
    by (simp add: calculate_account_age_score_def with_accounts_def get_social_data_def
        get_default_def [of "Some x" for x] age_fill Let_def)
  have b: "calculate_social_media_score (with_accounts accs social r)
     = calculate_social_media_score (with_accounts (map (fill_age 999) accs) social r)"
    by (simp add: calculate_social_media_score_def with_accounts_def get_social_data_def
        get_default_def [of "Some x" for x] recent_fill Let_def)
  have c: "account_age_days acc = None \<longrightarrow>
      calculate_account_age_score (with_accounts [acc] social r) = Inr 90 \<and>
      filter (\<lambda>a. get_default (account_age_days a) 999 < 30) [acc] = [] \<and>
      calculate_social_media_score (with_accounts [acc] social r) = 0 \<and>
      calculate_account_age_score (with_accounts [fill_age 999 acc] social r) = Inr 0 \<and>
      (truthy_bool (anomaly_detected social) \<longrightarrow>
         calculate_social_media_score (with_accounts [fill_age 0 acc] social r) = 30)"
    by (simp add: calculate_account_age_score_def calculate_social_media_score_def
        with_accounts_def get_social_data_def get_default_def fill_age_def py_truediv_def
        Let_def)
  from a b c show ?thesis by blast
qed

theorem missing_age_inconsistent_witness:
  "calculate_account_age_score
     (with_accounts [ageless_account] (empty_social\<lparr>anomaly_detected := Some True\<rparr>)
        (init_results example_number)) = Inr 90 \<and>
   calculate_social_media_score
     (with_accounts [ageless_account] (empty_social\<lparr>anomaly_detected := Some True\<rparr>)
        (init_results example_number)) = 0 \<and>
   calculate_social_media_score
     (with_accounts [fill_age 0 ageless_account] (empty_social\<lparr>anomaly_detected := Some True\<rparr>)
        (init_results example_number)) = 30"
proof -
  have none: "account_age_days ageless_account = None"
    by (simp add: ageless_account_def)
  have flagged: "truthy_bool (anomaly_detected (empty_social\<lparr>anomaly_detected := Some True\<rparr>))"
    by (simp add: truthy_bool_def)
  from missing_age_inconsistent [of "[ageless_account]"
      "empty_social\<lparr>anomaly_detected := Some True\<rparr>" "init_results example_number"
      ageless_account] none flagged
  show ?thesis by blast
qed

section \<open>Properties of the pipeline\<close>

subsection \<open>What each step changes\<close>

lemmas step_defs = upd_results_def log_call_def add_sources_def add_factor_def Let_def

lemma get_basic_info_frame:
  "an_phone_number (get_basic_info env a) = an_phone_number a"
  "provider_calls (get_basic_info env a) = provider_calls a"
  "phone_number (an_results (get_basic_info env a)) = phone_number (an_results a)"
  "spam_reports_count (an_results (get_basic_info env a)) = spam_reports_count (an_results a)"
  "spam_check_error (an_results (get_basic_info env a)) = spam_check_error (an_results a)"
  "risk_factors (an_results (get_basic_info env a)) = risk_factors (an_results a)"
  "data_sources_used (an_results (get_basic_info env a)) =
     data_sources_used (an_results a)
     @ (if returned (phonenumbers_parse env (an_phone_number a))
        then [''phonenumbers_library''] else [])"
  by (simp_all add: get_basic_info_def returned_def step_defs split: sum.splits)


lemma get_rich_metadata_frame:
  "an_phone_number (get_rich_metadata env a) = an_phone_number a"
  "provider_calls (get_rich_metadata env a) =
     provider_calls a @ [''IPQualityScoreChecker.check_fraud'']
     @ (if returned (ipqs_check_fraud env (an_phone_number a))
        then [''NumverifyValidator.validate''] else [])"
  "phone_number (an_results (get_rich_metadata env a)) = phone_number (an_results a)"
  "country_code (an_results (get_rich_metadata env a)) = country_code (an_results a)"
  "carrier (an_results (get_rich_metadata env a)) = carrier (an_results a)"
  "line_type (an_results (get_rich_metadata env a)) = line_type (an_results a)"
  "location (an_results (get_rich_metadata env a)) = location (an_results a)"
  "timezones (an_results (get_rich_metadata env a)) = timezones (an_results a)"
  "spam_reports_count (an_results (get_rich_metadata env a)) = spam_reports_count (an_results a)"
  "spam_check_error (an_results (get_rich_metadata env a)) = spam_check_error (an_results a)"
  "data_sources_used (an_results (get_rich_metadata env a)) =
     data_sources_used (an_results a)
     @ (if returned (ipqs_check_fraud env (an_phone_number a)) \<and>
           returned (numverify_validate env (an_phone_number a))
        then [''IPQualityScore'', ''Numverify''] else [])"
  by (simp_all add: get_rich_metadata_def returned_def step_defs split: sum.splits)

lemma get_rich_metadata_merge:
  assumes "ipqs_check_fraud env (an_phone_number a) = Inr ipqs"
    and "numverify_validate env (an_phone_number a) = Inr nv"
  shows "rich_metadata (an_results (get_rich_metadata env a))
           = Some (compile_rich_metadata (an_results a) ipqs nv)"
    "risk_factors (an_results (get_rich_metadata env a))
           = risk_factors (an_results a)
             @ metadata_factors (compile_rich_metadata (an_results a) ipqs nv)"
  using assms by (simp_all add: get_rich_metadata_def step_defs)

lemma check_social_media_frame:
  "an_phone_number (check_social_media env a) = an_phone_number a"
  "provider_calls (check_social_media env a) = provider_calls a @ [''SocialMediaScanner.scan'']"
  "phone_number (an_results (check_social_media env a)) = phone_number (an_results a)"
  "country_code (an_results (check_social_media env a)) = country_code (an_results a)"
  "carrier (an_results (check_social_media env a)) = carrier (an_results a)"
  "line_type (an_results (check_social_media env a)) = line_type (an_results a)"
  "location (an_results (check_social_media env a)) = location (an_results a)"
  "timezones (an_results (check_social_media env a)) = timezones (an_results a)"
  "rich_metadata (an_results (check_social_media env a)) = rich_metadata (an_results a)"
  "spam_reports_count (an_results (check_social_media env a)) = spam_reports_count (an_results a)"
  "spam_check_error (an_results (check_social_media env a)) = spam_check_error (an_results a)"
  "data_sources_used (an_results (check_social_media env a)) =
     data_sources_used (an_results a)
     @ (if returned (social_scan env (an_phone_number a)) then [''social_media_scan''] else [])"
  "set (risk_factors (an_results a)) \<subseteq> set (risk_factors (an_results (check_social_media env a)))"
  by (auto simp: check_social_media_def returned_def step_defs split: sum.splits)

lemma check_spam_databases_frame:
  "an_phone_number (check_spam_databases env a) = an_phone_number a"
  "provider_calls (check_spam_databases env a) = provider_calls a @ [''SpamDatabaseChecker.check'']"
  "phone_number (an_results (check_spam_databases env a)) = phone_number (an_results a)"
  "country_code (an_results (check_spam_databases env a)) = country_code (an_results a)"
  "carrier (an_results (check_spam_databases env a)) = carrier (an_results a)"
  "line_type (an_results (check_spam_databases env a)) = line_type (an_results a)"
  "location (an_results (check_spam_databases env a)) = location (an_results a)"
  "timezones (an_results (check_spam_databases env a)) = timezones (an_results a)"
  "rich_metadata (an_results (check_spam_databases env a)) = rich_metadata (an_results a)"
  "data_sources_used (an_results (check_spam_databases env a)) =
     data_sources_used (an_results a)
     @ (case spam_check env (an_phone_number a) of
          Inl e \<Rightarrow> [] | Inr spam \<Rightarrow> get_default (sources spam) [])"
  "set (risk_factors (an_results a)) \<subseteq> set (risk_factors (an_results (check_spam_databases env a)))"
  by (auto simp: check_spam_databases_def returned_def step_defs split: sum.splits)


lemma check_fraud_forums_frame:
  "an_phone_number (check_fraud_forums env a) = an_phone_number a"
  "provider_calls (check_fraud_forums env a) = provider_calls a @ [''FraudForumScanner.scan'']"
  "phone_number (an_results (check_fraud_forums env a)) = phone_number (an_results a)"
  "country_code (an_results (check_fraud_forums env a)) = country_code (an_results a)"
  "carrier (an_results (check_fraud_forums env a)) = carrier (an_results a)"
  "line_type (an_results (check_fraud_forums env a)) = line_type (an_results a)"
  "location (an_results (check_fraud_forums env a)) = location (an_results a)"
  "timezones (an_results (check_fraud_forums env a)) = timezones (an_results a)"
  "rich_metadata (an_results (check_fraud_forums env a)) = rich_metadata (an_results a)"
  "spam_reports_count (an_results (check_fraud_forums env a)) = spam_reports_count (an_results a)"
  "spam_check_error (an_results (check_fraud_forums env a)) = spam_check_error (an_results a)"
  "data_sources_used (an_results (check_fraud_forums env a)) =
     data_sources_used (an_results a)
     @ (if returned (fraud_scan env (an_phone_number a)) then [''fraud_forum_scan''] else [])"
  "set (risk_factors (an_results a)) \<subseteq> set (risk_factors (an_results (check_fraud_forums env a)))"
  by (auto simp: check_fraud_forums_def returned_def step_defs split: sum.splits)

lemma check_messaging_apps_frame:
  "an_phone_number (check_messaging_apps env a) = an_phone_number a"
  "provider_calls (check_messaging_apps env a) =
     provider_calls a @ [''TelegramScanner.scan'']
     @ (if returned (telegram_scan env (an_phone_number a))
        then [''WhatsAppChecker.check''] else [])"
  "phone_number (an_results (check_messaging_apps env a)) = phone_number (an_results a)"
  "country_code (an_results (check_messaging_apps env a)) = country_code (an_results a)"
  "carrier (an_results (check_messaging_apps env a)) = carrier (an_results a)"
  "line_type (an_results (check_messaging_apps env a)) = line_type (an_results a)"
  "location (an_results (check_messaging_apps env a)) = location (an_results a)"
  "timezones (an_results (check_messaging_apps env a)) = timezones (an_results a)"
  "rich_metadata (an_results (check_messaging_apps env a)) = rich_metadata (an_results a)"
  "spam_reports_count (an_results (check_messaging_apps env a)) = spam_reports_count (an_results a)"
  "spam_check_error (an_results (check_messaging_apps env a)) = spam_check_error (an_results a)"
  "data_sources_used (an_results (check_messaging_apps env a)) =
     data_sources_used (an_results a)
     @ (if returned (telegram_scan env (an_phone_number a)) \<and>
           returned (whatsapp_check env (an_phone_number a))
        then [''telegram_scan'', ''whatsapp_check''] else [])"
  "set (risk_factors (an_results a)) \<subseteq> set (risk_factors (an_results (check_messaging_apps env a)))"
  by (auto simp: check_messaging_apps_def returned_def step_defs split: sum.splits)

subsection \<open>The scoring step and the whole run\<close>

lemma get_factor_contribution_state: "get_factor_contribution r f = get_factor_contribution r' f"
  by (simp add: get_factor_contribution_def)

lemma determine_risk_level_ranked: "level_rank (determine_risk_level s) \<noteq> None"
  by (simp add: determine_risk_level_def level_rank_def)

lemma calculate_returns:
  "\<exists>score lvl. calculate r = Inr (score, lvl) \<and> 0 \<le> score \<and> score \<le> 100 \<and>
     level_rank lvl \<noteq> None"
proof -
  obtain age where age: "calculate_account_age_score r = Inr age"
    using account_age_never_raises by blast
  define total where "total = min 100 (max 0
               (calculate_social_media_score r * (30 / 100)
                + calculate_spam_score r * (25 / 100)
                + calculate_fraud_score r * (25 / 100)
                + age * (10 / 100)
                + calculate_geographic_score r * (10 / 100)))"
  have range: "0 \<le> total" "total \<le> 100" by (simp_all add: total_def)
  have "calculate r = Inr (py_round2 total, determine_risk_level total)"
    using calculate_unfold [OF age] by (simp add: total_def Let_def)
  with py_round2_bounds [OF range] determine_risk_level_ranked show ?thesis by blast
qed

lemma calculate_risk_effect:
  assumes "calculate (an_results a) = Inr (score, lvl)"
  shows "\<exists>a'. calculate_risk a = Inr a' \<and>
           an_phone_number a' = an_phone_number a \<and>
           provider_calls a' = provider_calls a \<and>
           risk_score (an_results a') = Some score \<and>
           risk_level (an_results a') = Some lvl \<and>
           phone_number (an_results a') = phone_number (an_results a) \<and>
           country_code (an_results a') = country_code (an_results a) \<and>
           carrier (an_results a') = carrier (an_results a) \<and>
           line_type (an_results a') = line_type (an_results a) \<and>
           location (an_results a') = location (an_results a) \<and>
           timezones (an_results a') = timezones (an_results a) \<and>
           rich_metadata (an_results a') = rich_metadata (an_results a) \<and>
           spam_reports_count (an_results a') = spam_reports_count (an_results a) \<and>
           spam_check_error (an_results a') = spam_check_error (an_results a) \<and>
           data_sources_used (an_results a') = data_sources_used (an_results a) \<and>
           risk_factors (an_results a') =
             map (\<lambda>f. f\<lparr>score_contribution := Some (get_factor_contribution (an_results a') f)\<rparr>)
               (risk_factors (an_results a))"
  using assms
  by (simp add: calculate_risk_def upd_results_def Let_def
      get_factor_contribution_state [of "an_results a\<lparr>risk_score := x, risk_level := y\<rparr>" _
        "an_results a\<lparr>risk_score := x, risk_level := y, risk_factors := z\<rparr>" for x y z])

lemma analyze_effect:
  "\<exists>a' score lvl.
     analyze env a = (a', Inr (an_results a')) \<and>
     0 \<le> score \<and> score \<le> 100 \<and> level_rank lvl \<noteq> None \<and>
     an_phone_number a' = an_phone_number (gather env a) \<and>
     provider_calls a' = provider_calls (gather env a) \<and>
     risk_score (an_results a') = Some score \<and>
     risk_level (an_results a') = Some lvl \<and>
     phone_number (an_results a') = phone_number (an_results (gather env a)) \<and>
     country_code (an_results a') = country_code (an_results (gather env a)) \<and>
     carrier (an_results a') = carrier (an_results (gather env a)) \<and>
     line_type (an_results a') = line_type (an_results (gather env a)) \<and>
     location (an_results a') = location (an_results (gather env a)) \<and>
     timezones (an_results a') = timezones (an_results (gather env a)) \<and>
     rich_metadata (an_results a') = rich_metadata (an_results (gather env a)) \<and>
     spam_reports_count (an_results a') = spam_reports_count (an_results (gather env a)) \<and>
     spam_check_error (an_results a') = spam_check_error (an_results (gather env a)) \<and>
     data_sources_used (an_results a') = data_sources_used (an_results (gather env a)) \<and>
     risk_factors (an_results a') =
       map (\<lambda>f. f\<lparr>score_contribution := Some (get_factor_contribution (an_results a') f)\<rparr>)
         (risk_factors (an_results (gather env a)))"
proof -
  obtain score lvl where c: "calculate (an_results (gather env a)) = Inr (score, lvl)"
    and r: "0 \<le> score" "score \<le> 100" "level_rank lvl \<noteq> None"
    using calculate_returns by blast
  from calculate_risk_effect [OF c] obtain a' where a': "calculate_risk (gather env a) = Inr a'"
    and rest: "an_phone_number a' = an_phone_number (gather env a)"
           "provider_calls a' = provider_calls (gather env a)"
           "risk_score (an_results a') = Some score"
           "risk_level (an_results a') = Some lvl"
           "phone_number (an_results a') = phone_number (an_results (gather env a))"
           "country_code (an_results a') = country_code (an_results (gather env a))"
           "carrier (an_results a') = carrier (an_results (gather env a))"
           "line_type (an_results a') = line_type (an_results (gather env a))"
           "location (an_results a') = location (an_results (gather env a))"
           "timezones (an_results a') = timezones (an_results (gather env a))"
           "rich_metadata (an_results a') = rich_metadata (an_results (gather env a))"
           "spam_reports_count (an_results a') = spam_reports_count (an_results (gather env a))"
           "spam_check_error (an_results a') = spam_check_error (an_results (gather env a))"
           "data_sources_used (an_results a') = data_sources_used (an_results (gather env a))"
           "risk_factors (an_results a') =
             map (\<lambda>f. f\<lparr>score_contribution := Some (get_factor_contribution (an_results a') f)\<rparr>)
               (risk_factors (an_results (gather env a)))"
    by blast
  have "analyze env a = (a', Inr (an_results a'))"
    by (simp add: analyze_def Let_def a')
  with r rest show ?thesis by blast
qed

lemmas frames = get_basic_info_frame get_rich_metadata_frame check_social_media_frame
  check_spam_databases_frame check_fraud_forums_frame check_messaging_apps_frame


lemma gather_provider_calls:
  "provider_calls (gather env a) =
     provider_calls a @ [''IPQualityScoreChecker.check_fraud'']
     @ (if returned (ipqs_check_fraud env (an_phone_number a))
        then [''NumverifyValidator.validate''] else [])
     @ [''SocialMediaScanner.scan'', ''SpamDatabaseChecker.check'', ''FraudForumScanner.scan'',
        ''TelegramScanner.scan'']
     @ (if returned (telegram_scan env (an_phone_number a))
        then [''WhatsAppChecker.check''] else [])"
  by (simp add: gather_def frames)

lemma gather_data_sources_used:
  "data_sources_used (an_results (gather env a)) =
     data_sources_used (an_results a)
     @ (if returned (phonenumbers_parse env (an_phone_number a))
        then [''phonenumbers_library''] else [])
     @ (if returned (ipqs_check_fraud env (an_phone_number a)) \<and>
           returned (numverify_validate env (an_phone_number a))
        then [''IPQualityScore'', ''Numverify''] else [])
     @ (if returned (social_scan env (an_phone_number a)) then [''social_media_scan''] else [])
     @ (case spam_check env (an_phone_number a) of
          Inl e \<Rightarrow> [] | Inr spam \<Rightarrow> get_default (sources spam) [])
     @ (if returned (fraud_scan env (an_phone_number a)) then [''fraud_forum_scan''] else [])
     @ (if returned (telegram_scan env (an_phone_number a)) \<and>
           returned (whatsapp_check env (an_phone_number a))
        then [''telegram_scan'', ''whatsapp_check''] else [])"
  by (simp add: gather_def frames)



lemma gather_rich_metadata:
  assumes "ipqs_check_fraud env (an_phone_number a) = Inr ipqs"
    and "numverify_validate env (an_phone_number a) = Inr nv"
  shows "rich_metadata (an_results (gather env a))
           = Some (compile_rich_metadata (an_results (get_basic_info env a)) ipqs nv)"
    "set (metadata_factors (compile_rich_metadata (an_results (get_basic_info env a)) ipqs nv))
       \<subseteq> set (risk_factors (an_results (gather env a)))"
proof -
  let ?a1 = "get_basic_info env a"
  let ?a2 = "get_rich_metadata env ?a1"
  let ?a3 = "check_social_media env ?a2"
  let ?a4 = "check_spam_databases env ?a3"
  let ?a5 = "check_fraud_forums env ?a4"
  have i: "ipqs_check_fraud env (an_phone_number ?a1) = Inr ipqs"
    and n: "numverify_validate env (an_phone_number ?a1) = Inr nv"
    using assms by (simp_all add: frames)
  from get_rich_metadata_merge [OF i n]
  show "rich_metadata (an_results (gather env a))
           = Some (compile_rich_metadata (an_results (get_basic_info env a)) ipqs nv)"
    by (simp add: gather_def frames)
  have "set (metadata_factors (compile_rich_metadata (an_results ?a1) ipqs nv))
          \<subseteq> set (risk_factors (an_results ?a2))"
    using get_rich_metadata_merge(2) [OF i n] by simp
  also have "\<dots> \<subseteq> set (risk_factors (an_results ?a3))"
    by (rule check_social_media_frame)
  also have "\<dots> \<subseteq> set (risk_factors (an_results ?a4))"
    by (rule check_spam_databases_frame)
  also have "\<dots> \<subseteq> set (risk_factors (an_results ?a5))"
    by (rule check_fraud_forums_frame)
  also have "\<dots> \<subseteq> set (risk_factors (an_results (check_messaging_apps env ?a5)))"
    by (rule check_messaging_apps_frame)
  finally show "set (metadata_factors (compile_rich_metadata (an_results ?a1) ipqs nv))
       \<subseteq> set (risk_factors (an_results (gather env a)))"
    by (simp add: gather_def)
qed

subsection \<open>Failure isolation, provenance and the carrier merge\<close>

lemma new_analyzer_fields:
  "an_phone_number (new_analyzer pn deep) = pn"
  "provider_calls (new_analyzer pn deep) = []"
  "phone_number (an_results (new_analyzer pn deep)) = pn"
  "spam_reports_count (an_results (new_analyzer pn deep)) = None"
  "data_sources_used (an_results (new_analyzer pn deep)) = []"
  by (simp_all add: new_analyzer_def init_results_def)




lemma analyze_data_sources_used:
  "\<exists>a. analyze env (new_analyzer pn deep) = (a, Inr (an_results a)) \<and>
     data_sources_used (an_results a) =
       (if returned (phonenumbers_parse env pn) then [''phonenumbers_library''] else [])
       @ (if returned (ipqs_check_fraud env pn) \<and> returned (numverify_validate env pn)
          then [''IPQualityScore'', ''Numverify''] else [])
       @ (if returned (social_scan env pn) then [''social_media_scan''] else [])
       @ (case spam_check env pn of Inl e \<Rightarrow> [] | Inr spam \<Rightarrow> get_default (sources spam) [])
       @ (if returned (fraud_scan env pn) then [''fraud_forum_scan''] else [])
       @ (if returned (telegram_scan env pn) \<and> returned (whatsapp_check env pn)
          then [''telegram_scan'', ''whatsapp_check''] else [])"
proof -
  from analyze_effect [of env "new_analyzer pn deep"] obtain a where
    run: "analyze env (new_analyzer pn deep) = (a, Inr (an_results a))"
    and same: "data_sources_used (an_results a)
                 = data_sources_used (an_results (gather env (new_analyzer pn deep)))"
    by blast
  show ?thesis
    using run by (simp add: same gather_data_sources_used new_analyzer_fields)
qed

text \<open>
  Claim C7 as stated fails: with no API key configured, \<^verbatim>\<open>NumverifyValidator.validate\<close>
  returns only the error payload (\<^verbatim>\<open>valid\<close> false and an error text, no carrier, line
  type, location or country), and the fraud-score provider likewise, yet
  \<^verbatim>\<open>data_sources_used\<close> of the completed result lists both "IPQualityScore" and
  "Numverify".
\<close>

theorem data_sources_used_counterexample:
  "numverify_validate unconfigured example_number
     = Inr (numverify_failure ''NUMVERIFY_API_KEY not configured'') \<and>
   nv_valid (numverify_failure ''NUMVERIFY_API_KEY not configured'') = Some False \<and>
   nv_carrier (numverify_failure ''NUMVERIFY_API_KEY not configured'') = None \<and>
   nv_line_type (numverify_failure ''NUMVERIFY_API_KEY not configured'') = None \<and>
   nv_location (numverify_failure ''NUMVERIFY_API_KEY not configured'') = None \<and>
   nv_country_name (numverify_failure ''NUMVERIFY_API_KEY not configured'') = None \<and>
   snd (analyze unconfigured (new_analyzer example_number False))
     = Inr (an_results (fst (analyze unconfigured (new_analyzer example_number False)))) \<and>
   data_sources_used (an_results (fst (analyze unconfigured (new_analyzer example_number False))))
     = [''phonenumbers_library'', ''IPQualityScore'', ''Numverify'', ''social_media_scan'',
        ''fraud_forum_scan'', ''telegram_scan'', ''whatsapp_check'']"
proof -
  from analyze_data_sources_used [of unconfigured example_number False] obtain a where
    run: "analyze unconfigured (new_analyzer example_number False) = (a, Inr (an_results a))"
    and srcs: "data_sources_used (an_results a)
       = [''phonenumbers_library'', ''IPQualityScore'', ''Numverify'', ''social_media_scan'',
          ''fraud_forum_scan'', ''telegram_scan'', ''whatsapp_check'']"
    by (auto simp: unconfigured_def returned_def get_default_def)
  have payload: "numverify_validate unconfigured example_number
     = Inr (numverify_failure ''NUMVERIFY_API_KEY not configured'')"
    by (simp add: unconfigured_def validate_def)
  show ?thesis
    by (simp add: run srcs payload numverify_failure_def)
qed

text \<open>
  Claim C7, amended. In every completed result \<^verbatim>\<open>data_sources_used\<close> is, in pipeline
  order, the identifiers of exactly the steps whose provider calls all returned
  without raising: the library parse, the two rich-metadata providers together, the
  social-media scan, the sources the spam provider itself reports, the fraud-forum
  scan, and the two messaging providers together. A step in which a provider call
  raised contributes no identifier; a provider that returned, even with an error
  payload only, is listed.
\<close>

theorem data_sources_used_steps:
  "\<exists>a res. analyze env (new_analyzer pn deep) = (a, Inr res) \<and>
     data_sources_used res =
       (if returned (phonenumbers_parse env pn) then [''phonenumbers_library''] else [])
       @ (if returned (ipqs_check_fraud env pn) \<and> returned (numverify_validate env pn)
          then [''IPQualityScore'', ''Numverify''] else [])
       @ (if returned (social_scan env pn) then [''social_media_scan''] else [])
       @ (case spam_check env pn of Inl e \<Rightarrow> [] | Inr spam \<Rightarrow> get_default (sources spam) [])
       @ (if returned (fraud_scan env pn) then [''fraud_forum_scan''] else [])
       @ (if returned (telegram_scan env pn) \<and> returned (whatsapp_check env pn)
          then [''telegram_scan'', ''whatsapp_check''] else [])"
  using analyze_data_sources_used [of env pn deep] by blast

theorem data_sources_used_steps_witness:
  "data_sources_used
     (an_results (fst (analyze
        (unconfigured\<lparr>numverify_validate := (\<lambda>pn. Inl ''Connection refused'')\<rparr>)
        (new_analyzer example_number False))))
     = [''phonenumbers_library'', ''social_media_scan'', ''fraud_forum_scan'',
        ''telegram_scan'', ''whatsapp_check'']"
proof -
  let ?env = "unconfigured\<lparr>numverify_validate := (\<lambda>pn. Inl ''Connection refused'')\<rparr>"
  from data_sources_used_steps [of ?env example_number False] obtain a res where
    run: "analyze ?env (new_analyzer example_number False) = (a, Inr res)"
    and srcs: "data_sources_used res
       = [''phonenumbers_library'', ''social_media_scan'', ''fraud_forum_scan'',
          ''telegram_scan'', ''whatsapp_check'']"
    by (auto simp: unconfigured_def returned_def get_default_def)
  from analyze_effect [of ?env "new_analyzer example_number False"] run
  have "res = an_results a" by auto
  with run srcs show ?thesis by simp
qed

lemma compile_carriers:
  assumes "ipqs_carrier ipqs = Some cb" and "cb \<noteq> []" and "nv_carrier nv = Some ca"
  shows "current_carrier (rm_carrier_details (compile_rich_metadata r ipqs nv)) = cb"
    "original_carrier (rm_carrier_details (compile_rich_metadata r ipqs nv)) = ca"
    "porting_detected (rm_carrier_details (compile_rich_metadata r ipqs nv))
       = (cb \<noteq> ''Unknown'' \<and> ca \<noteq> ''Unknown'' \<and> cb \<noteq> ca)"
    "is_voip (rm_carrier_details (compile_rich_metadata r ipqs nv))
       = get_default (ipqs_VOIP ipqs) False"
  using assms
  by (simp_all add: compile_rich_metadata_def detect_porting_def compile_carrier_details_def
      py_or_str_def get_default_def)

lemma scored_factor:
  assumes "f \<in> set fs"
  shows "\<exists>g \<in> set (map (\<lambda>f. f\<lparr>score_contribution := Some (c f)\<rparr>) fs).
           factor_type g = factor_type f \<and> severity g = severity f \<and> weight g = weight f"
  using assms by auto

text \<open>
  Claim C8. When both rich-metadata providers return, the fraud-score provider reports
  a non-empty carrier other than "Unknown" and the validity provider a carrier other
  than "Unknown", the current carrier of the rich metadata is the fraud-score
  provider's and the original carrier the validity provider's. If moreover the
  fraud-score provider reports VOIP and the two carriers differ, the rich metadata has
  \<^verbatim>\<open>porting_detected\<close> set and the result holds a VOIP factor (MEDIUM, weight 0.15)
  and a porting-detected factor (LOW, weight 0.10).
\<close>

theorem carrier_merge:
  assumes "ipqs_check_fraud env pn = Inr ipqs" and "numverify_validate env pn = Inr nv"
    and "ipqs_carrier ipqs = Some cb" and "cb \<noteq> []" and "cb \<noteq> ''Unknown''"
    and "nv_carrier nv = Some ca" and "ca \<noteq> ''Unknown''"
  shows "\<exists>a res rm.
           analyze env (new_analyzer pn deep) = (a, Inr res) \<and>
           rich_metadata res = Some rm \<and>
           current_carrier (rm_carrier_details rm) = cb \<and>
           original_carrier (rm_carrier_details rm) = ca \<and>
           (ipqs_VOIP ipqs = Some True \<and> ca \<noteq> cb \<longrightarrow>
              porting_detected (rm_carrier_details rm) \<and>
              (\<exists>f \<in> set (risk_factors res).
                 factor_type f = Some ''voip_number'' \<and> severity f = Some ''MEDIUM'' \<and>
                 weight f = Some (15 / 100)) \<and>
              (\<exists>f \<in> set (risk_factors res).
                 factor_type f = Some ''porting_detected'' \<and> severity f = Some ''LOW'' \<and>
                 weight f = Some (10 / 100)))"
proof -
  let ?a0 = "new_analyzer pn deep"
  let ?rm = "compile_rich_metadata (an_results (get_basic_info env ?a0)) ipqs nv"
  have i: "ipqs_check_fraud env (an_phone_number ?a0) = Inr ipqs"
    and n: "numverify_validate env (an_phone_number ?a0) = Inr nv"
    using assms(1,2) by (simp_all add: new_analyzer_fields)
  from analyze_effect [of env ?a0] obtain a where
    run: "analyze env ?a0 = (a, Inr (an_results a))"
    and rm: "rich_metadata (an_results a) = rich_metadata (an_results (gather env ?a0))"
    and fs: "risk_factors (an_results a) =
       map (\<lambda>f. f\<lparr>score_contribution := Some (get_factor_contribution (an_results a) f)\<rparr>)
         (risk_factors (an_results (gather env ?a0)))"
    by blast
  have rm': "rich_metadata (an_results a) = Some ?rm"
    by (simp add: rm gather_rich_metadata(1) [OF i n])
  note cs = compile_carriers [OF assms(3,4,6), of "an_results (get_basic_info env ?a0)"]
  have ported: "porting_detected (rm_carrier_details ?rm)"
    and voip: "\<exists>f \<in> set (risk_factors (an_results a)).
                 factor_type f = Some ''voip_number'' \<and> severity f = Some ''MEDIUM'' \<and>
                 weight f = Some (15 / 100)"
    and port: "\<exists>f \<in> set (risk_factors (an_results a)).
                 factor_type f = Some ''porting_detected'' \<and> severity f = Some ''LOW'' \<and>
                 weight f = Some (10 / 100)"
    if v: "ipqs_VOIP ipqs = Some True" and d: "ca \<noteq> cb"
  proof -
    show p: "porting_detected (rm_carrier_details ?rm)"
      using d assms(5,7) by (simp add: cs(3))
    have "is_voip (rm_carrier_details ?rm)"
      by (simp add: cs(4) v get_default_def)
    then have "voip_factor \<in> set (metadata_factors ?rm)"
      by (simp add: metadata_factors_def)
    then have "voip_factor \<in> set (risk_factors (an_results (gather env ?a0)))"
      using gather_rich_metadata(2) [OF i n] by blast
    from scored_factor [OF this] show "\<exists>f \<in> set (risk_factors (an_results a)).
                 factor_type f = Some ''voip_number'' \<and> severity f = Some ''MEDIUM'' \<and>
                 weight f = Some (15 / 100)"
      unfolding fs by (simp add: voip_factor_def)
    have "porting_factor (rm_carrier_details ?rm) \<in> set (metadata_factors ?rm)"
      using p by (simp add: metadata_factors_def)
    then have "porting_factor (rm_carrier_details ?rm)
                 \<in> set (risk_factors (an_results (gather env ?a0)))"
      using gather_rich_metadata(2) [OF i n] by blast
    from scored_factor [OF this] show "\<exists>f \<in> set (risk_factors (an_results a)).
                 factor_type f = Some ''porting_detected'' \<and> severity f = Some ''LOW'' \<and>
                 weight f = Some (10 / 100)"
      unfolding fs by (simp add: porting_factor_def)
  qed
  with run rm' cs(1,2) show ?thesis by blast
qed

theorem carrier_merge_witness:
  "(case rich_metadata (an_results (fst (analyze scenario_providers
            (new_analyzer example_number False)))) of
      None \<Rightarrow> False
    | Some rm \<Rightarrow>
        current_carrier (rm_carrier_details rm) = ''CarrierB'' \<and>
        original_carrier (rm_carrier_details rm) = ''CarrierA'' \<and>
        porting_detected (rm_carrier_details rm)) \<and>
   (Some ''voip_number'', Some ''MEDIUM'', Some (15 / 100))
     \<in> (\<lambda>f. (factor_type f, severity f, weight f)) `
         set (risk_factors (an_results (fst (analyze scenario_providers
            (new_analyzer example_number False))))) \<and>
   (Some ''porting_detected'', Some ''LOW'', Some (10 / 100))
     \<in> (\<lambda>f. (factor_type f, severity f, weight f)) `
         set (risk_factors (an_results (fst (analyze scenario_providers
            (new_analyzer example_number False)))))"
proof -
  have i: "ipqs_check_fraud scenario_providers example_number = Inr ipqs_scenario"
    and n: "numverify_validate scenario_providers example_number = Inr numverify_scenario"
    by (simp_all add: scenario_providers_def)
  have cb: "ipqs_carrier ipqs_scenario = Some ''CarrierB''"
    and voip: "ipqs_VOIP ipqs_scenario = Some True"
    by (simp_all add: ipqs_scenario_def)
  have ca: "nv_carrier numverify_scenario = Some ''CarrierA''"
    by (simp add: numverify_scenario_def)
  from carrier_merge [OF i n cb _ _ ca, of False] voip
  obtain a res rm where
    run: "analyze scenario_providers (new_analyzer example_number False) = (a, Inr res)"
    and rm: "rich_metadata res = Some rm"
      "current_carrier (rm_carrier_details rm) = ''CarrierB''"
      "original_carrier (rm_carrier_details rm) = ''CarrierA''"
      "porting_detected (rm_carrier_details rm)"
    and f1: "\<exists>f \<in> set (risk_factors res).
                 factor_type f = Some ''voip_number'' \<and> severity f = Some ''MEDIUM'' \<and>
                 weight f = Some (15 / 100)"
    and f2: "\<exists>f \<in> set (risk_factors res).
                 factor_type f = Some ''porting_detected'' \<and> severity f = Some ''LOW'' \<and>
                 weight f = Some (10 / 100)"
    by auto
  from analyze_effect [of scenario_providers "new_analyzer example_number False"] run
  have "res = an_results a" by auto
  with run have res: "an_results (fst (analyze scenario_providers
            (new_analyzer example_number False))) = res"
    by simp
  from f1 have g1: "(Some ''voip_number'', Some ''MEDIUM'', Some (15 / 100))
     \<in> (\<lambda>f. (factor_type f, severity f, weight f)) ` set (risk_factors res)"
    by force
  from f2 have g2: "(Some ''porting_detected'', Some ''LOW'', Some (10 / 100))
     \<in> (\<lambda>f. (factor_type f, severity f, weight f)) ` set (risk_factors res)"
    by force
  show ?thesis
    unfolding res using rm g1 g2 by simp
qed

subsection \<open>The freshness cache of the route\<close>

lemma recent_analysis_Some:
  assumes "row \<in> set db" and "pa_phone_number row = pn"
    and "query_time clk - hours24 < pa_analysis_date row"
  shows "\<exists>row'. recent_analysis clk db pn = Some row' \<and> row' \<in> set db \<and>
           pa_phone_number row' = pn \<and> query_time clk - hours24 < pa_analysis_date row'"
proof (cases "recent_analysis clk db pn")
  case None
  with assms show ?thesis
    by (auto simp: recent_analysis_def find_None_iff)
next
  case (Some row')
  then show ?thesis
    by (auto simp: recent_analysis_def find_Some_iff)
qed

lemma perform_new_analysis_effect:
  "\<exists>a res. analyze env (new_analyzer pn deep) = (a, Inr res) \<and>
     perform_new_analysis env clk db pn deep =
       (AnalysisResponse ''Analysis completed successfully'' (new_row clk db pn res) 201,
        db @ [new_row clk db pn res], provider_calls a) \<and>
     provider_calls a =
       [''IPQualityScoreChecker.check_fraud'']
       @ (if returned (ipqs_check_fraud env pn) then [''NumverifyValidator.validate''] else [])
       @ [''SocialMediaScanner.scan'', ''SpamDatabaseChecker.check'', ''FraudForumScanner.scan'',
          ''TelegramScanner.scan'']
       @ (if returned (telegram_scan env pn) then [''WhatsAppChecker.check''] else [])"
proof -
  from analyze_effect [of env "new_analyzer pn deep"] obtain a where
    run: "analyze env (new_analyzer pn deep) = (a, Inr (an_results a))"
    and calls: "provider_calls a = provider_calls (gather env (new_analyzer pn deep))"
    by blast
  have "perform_new_analysis env clk db pn deep =
       (AnalysisResponse ''Analysis completed successfully'' (new_row clk db pn (an_results a)) 201,
        db @ [new_row clk db pn (an_results a)], provider_calls a)"
    by (simp add: perform_new_analysis_def run Let_def)
  with run calls show ?thesis
    by (simp add: gather_provider_calls new_analyzer_fields)
qed

text \<open>
  Claim C6. For a valid phone number: when a stored row of that number is less than 24
  hours old and no deep scan is requested, the route answers with such a stored row
  (the first in the table), makes no provider call and leaves the table as it is;
  when a deep scan is requested the route runs the analysis whatever the table holds:
  every provider step is called, and the new row is stored and returned.
\<close>

theorem freshness_cache:
  assumes "rq_phone_number data = Some pn"
    and "validate_phone_number env (Some pn) = (True, msg)"
  shows "(get_default (rq_deep_scan data) False = False \<and> row \<in> set db \<and>
          pa_phone_number row = pn \<and> query_time clk - hours24 < pa_analysis_date row \<longrightarrow>
            (\<exists>row'. recent_analysis clk db pn = Some row' \<and> row' \<in> set db \<and>
               pa_phone_number row' = pn \<and>
               query_time clk - hours24 < pa_analysis_date row' \<and>
               analyze_phone env clk db data =
                 (AnalysisResponse ''Using cached analysis from last 24 hours'' row' 200,
                  db, []))) \<and>
         (rq_deep_scan data = Some True \<longrightarrow>
            (\<exists>a res.
               analyze env (new_analyzer pn True) = (a, Inr res) \<and>
               analyze_phone env clk db data =
                 (AnalysisResponse ''Analysis completed successfully''
                    (new_row clk db pn res) 201,
                  db @ [new_row clk db pn res], provider_calls a) \<and>
               provider_calls a =
                 [''IPQualityScoreChecker.check_fraud'']
                 @ (if returned (ipqs_check_fraud env pn)
                    then [''NumverifyValidator.validate''] else [])
                 @ [''SocialMediaScanner.scan'', ''SpamDatabaseChecker.check'',
                    ''FraudForumScanner.scan'', ''TelegramScanner.scan'']
                 @ (if returned (telegram_scan env pn) then [''WhatsAppChecker.check''] else [])))"
proof (intro conjI impI)
  assume h: "get_default (rq_deep_scan data) False = False \<and> row \<in> set db \<and>
          pa_phone_number row = pn \<and> query_time clk - hours24 < pa_analysis_date row"
  then obtain row' where r: "recent_analysis clk db pn = Some row'" "row' \<in> set db"
    "pa_phone_number row' = pn" "query_time clk - hours24 < pa_analysis_date row'"
    using recent_analysis_Some [of row db pn clk] by blast
  have "analyze_phone env clk db data =
          (AnalysisResponse ''Using cached analysis from last 24 hours'' row' 200, db, [])"
    using h by (simp add: analyze_phone_def assms r(1) Let_def get_default_def [of "Some x" for x])
  with r show "\<exists>row'. recent_analysis clk db pn = Some row' \<and> row' \<in> set db \<and>
               pa_phone_number row' = pn \<and>
               query_time clk - hours24 < pa_analysis_date row' \<and>
               analyze_phone env clk db data =
                 (AnalysisResponse ''Using cached analysis from last 24 hours'' row' 200,
                  db, [])"
    by blast
next
  assume d: "rq_deep_scan data = Some True"
  have "analyze_phone env clk db data = perform_new_analysis env clk db pn True"
    by (simp add: analyze_phone_def assms d Let_def get_default_def split: option.splits)
  with perform_new_analysis_effect [of env pn True clk db]
  show "\<exists>a res.
               analyze env (new_analyzer pn True) = (a, Inr res) \<and>
               analyze_phone env clk db data =
                 (AnalysisResponse ''Analysis completed successfully''
                    (new_row clk db pn res) 201,
                  db @ [new_row clk db pn res], provider_calls a) \<and>
               provider_calls a =
                 [''IPQualityScoreChecker.check_fraud'']
                 @ (if returned (ipqs_check_fraud env pn)
                    then [''NumverifyValidator.validate''] else [])
                 @ [''SocialMediaScanner.scan'', ''SpamDatabaseChecker.check'',
                    ''FraudForumScanner.scan'', ''TelegramScanner.scan'']
                 @ (if returned (telegram_scan env pn) then [''WhatsAppChecker.check''] else [])"
    by simp
qed

theorem freshness_cache_witness:
  "analyze_phone unconfigured example_clock [example_row]
     \<lparr>rq_phone_number = Some example_number, rq_deep_scan = Some False\<rparr>
     = (AnalysisResponse ''Using cached analysis from last 24 hours'' example_row 200,
        [example_row], []) \<and>
   snd (snd (analyze_phone unconfigured example_clock [example_row]
     \<lparr>rq_phone_number = Some example_number, rq_deep_scan = Some True\<rparr>))
     = [''IPQualityScoreChecker.check_fraud'', ''NumverifyValidator.validate'',
        ''SocialMediaScanner.scan'', ''SpamDatabaseChecker.check'', ''FraudForumScanner.scan'',
        ''TelegramScanner.scan'', ''WhatsAppChecker.check''] \<and>
   length (fst (snd (analyze_phone unconfigured example_clock [example_row]
     \<lparr>rq_phone_number = Some example_number, rq_deep_scan = Some True\<rparr>))) = 2"
proof -
  have valid: "validate_phone_number unconfigured (Some example_number) = (True, None)"
    by (simp add: validate_phone_number_def unconfigured_def example_parsed_def
        example_number_def)
  have fresh: "example_row \<in> set [example_row]" "pa_phone_number example_row = example_number"
    "query_time example_clock - hours24 < pa_analysis_date example_row"
    by (simp_all add: example_row_def example_clock_def hours24_def)
  let ?cached = "\<lparr>rq_phone_number = Some example_number, rq_deep_scan = Some False\<rparr>"
  let ?deep = "\<lparr>rq_phone_number = Some example_number, rq_deep_scan = Some True\<rparr>"
  from freshness_cache [of ?cached example_number unconfigured None example_row "[example_row]"
      example_clock] valid fresh
  have c: "analyze_phone unconfigured example_clock [example_row] ?cached
     = (AnalysisResponse ''Using cached analysis from last 24 hours'' example_row 200,
        [example_row], [])"
    by (auto simp: get_default_def)
  have ret: "returned (ipqs_check_fraud unconfigured example_number)"
    "returned (telegram_scan unconfigured example_number)"
    by (simp_all add: unconfigured_def returned_def)
  from freshness_cache [of ?deep example_number unconfigured None example_row "[example_row]"
      example_clock] valid
  have "\<exists>a res.
          analyze unconfigured (new_analyzer example_number True) = (a, Inr res) \<and>
          analyze_phone unconfigured example_clock [example_row] ?deep =
                 (AnalysisResponse ''Analysis completed successfully''
                    (new_row example_clock [example_row] example_number res) 201,
                  [example_row] @ [new_row example_clock [example_row] example_number res],
                  provider_calls a) \<and>
          provider_calls a =
            [''IPQualityScoreChecker.check_fraud'', ''NumverifyValidator.validate'',
             ''SocialMediaScanner.scan'', ''SpamDatabaseChecker.check'', ''FraudForumScanner.scan'',
             ''TelegramScanner.scan'', ''WhatsAppChecker.check'']"
    by (simp add: ret)
  then obtain a res where
    run: "analyze unconfigured (new_analyzer example_number True) = (a, Inr res)"
    and d: "analyze_phone unconfigured example_clock [example_row] ?deep =
                 (AnalysisResponse ''Analysis completed successfully''
                    (new_row example_clock [example_row] example_number res) 201,
                  [example_row] @ [new_row example_clock [example_row] example_number res],
                  provider_calls a)"
    and calls: "provider_calls a =
        [''IPQualityScoreChecker.check_fraud'', ''NumverifyValidator.validate'',
        ''SocialMediaScanner.scan'', ''SpamDatabaseChecker.check'', ''FraudForumScanner.scan'',
        ''TelegramScanner.scan'', ''WhatsAppChecker.check'']"
    by (elim exE conjE)
  show ?thesis
    by (simp add: c d calls)
qed

end
